theory Spec2Isabelle
  imports Complex_Main
begin

section \<open>The record model: JavaScript values read from the JSON document\<close>

text \<open>
  The aggregation functions read plain JSON objects. A property of such an object is a
  JavaScript value; the model keeps, for every property, the kinds of value that the
  record model of the repository gives it, and keeps apart the values that the code
  itself tells apart (\<open>undefined\<close>, \<open>null\<close>, a value of the expected type).

  \<^item> \<open>Reviewer\<close> and \<open>Author\<close> are an arbitrary JSON scalar (a string, a number, a
    boolean, \<open>null\<close>) or absent (\<open>undefined\<close>): the node aggregation uses them as keys of
    a \<open>Map\<close>, which takes every value, and the label averages call \<open>trim\<close> on the
    reviewer, which raises a \<open>TypeError\<close> on a number or a boolean.
  \<^item> \<open>Feedback\<close> is a string, \<open>null\<close> or absent.
  \<^item> The label flags (\<open>Relevance\<close>, \<open>Concreteness\<close>, \<open>Constructive\<close>) are a JSON
    number, \<open>null\<close> or absent.
  \<^item> \<open>Label\<close> is handed to \<open>parseFloat\<close>, which accepts every value: it is an
    arbitrary JSON scalar.
  \<^item> \<open>Round\<close> is an array of round objects, or anything that is not an array.

  A \<open>Feedback\<close> that is a number, a flag that is a string and a round or a record that
  is not an object are outside the record model and are not represented.

  An exception of the source is a value of the model: a function that can raise returns
  \<open>Inl TypeError\<close> where the source raises and \<open>Inr\<close> of its result where it returns.

  Finite numbers are exact rationals: the rounding of IEEE doubles, and with it the
  underflow to zero, is not modelled. The results of \<open>parseFloat\<close> and of the arithmetic
  on them carry the three special values \<open>NaN\<close>, \<open>Infinity\<close> and \<open>-Infinity\<close> explicitly
  (type \<open>jsnum\<close>), and a result at or beyond the rounding boundary of the largest double
  is an infinity. The flags and the sums of the node aggregation are exact rationals.
  A string is a list of code units below 256; the result of \<open>toUpperCase\<close>, which can
  leave that range, is a list of code units given as numbers.
\<close>

datatype jstext = TUndefined | TNull | TStr string

datatype jsflag = FUndefined | FNull | FNum rat

datatype jsval = JUndefined | JNull | JBool bool | JNum rat | JStr string

datatype jsnum = NaN | Fin rat | PInf | NInf

datatype error = TypeError

record round_rec =
  Feedback :: jstext
  Relevance :: jsflag
  Concreteness :: jsflag
  Constructive :: jsflag
  Label :: jsval

datatype jsrounds = NotArray | IsArray "round_rec list"

record assignment =
  Author :: jsval
  Reviewer :: jsval
  Round :: jsrounds

subsection \<open>String primitives\<close>

text \<open>
  \<open>String.prototype.trim\<close> removes white space and line terminators from both ends.
  Below code unit 256 these are TAB, LF, VT, FF, CR, SPACE and NBSP.
\<close>

definition isWhiteSpace :: "char \<Rightarrow> bool" where
  "isWhiteSpace c \<longleftrightarrow>
     c = CHR 0x09 \<or> c = CHR 0x0A \<or> c = CHR 0x0B \<or> c = CHR 0x0C \<or> c = CHR 0x0D \<or>
     c = CHR 0x20 \<or> c = CHR 0xA0"

definition trimStart :: "string \<Rightarrow> string" where
  "trimStart s = dropWhile isWhiteSpace s"

definition trim :: "string \<Rightarrow> string" where
  "trim s = rev (dropWhile isWhiteSpace (rev (dropWhile isWhiteSpace s)))"

subsection \<open>Loops whose body can raise\<close>

text \<open>
  \<open>forEach f st xs\<close> is \<open>xs.forEach(x => ...)\<close> for a body \<open>f\<close> that acts on the state
  \<open>st\<close> and can raise: the first exception ends the loop and is the result.
  \<open>forEachMap\<close> is the same loop for a body that changes the element itself.
\<close>

fun forEach :: "('s \<Rightarrow> 'a \<Rightarrow> error + 's) \<Rightarrow> 's \<Rightarrow> 'a list \<Rightarrow> error + 's" where
  "forEach f st [] = Inr st"
| "forEach f st (x # xs) = (case f st x of Inl e \<Rightarrow> Inl e | Inr st' \<Rightarrow> forEach f st' xs)"

fun forEachMap :: "('a \<Rightarrow> error + 'b) \<Rightarrow> 'a list \<Rightarrow> error + 'b list" where
  "forEachMap f [] = Inr []"
| "forEachMap f (x # xs) =
     (case f x of
        Inl e \<Rightarrow> Inl e
      | Inr y \<Rightarrow> (case forEachMap f xs of Inl e \<Rightarrow> Inl e | Inr ys \<Rightarrow> Inr (y # ys)))"

section \<open>Node aggregation: \<open>processReviewerData\<close>\<close>

record label_counts =
  relevance :: rat
  concreteness :: rat
  constructive :: rat

record node =
  node_id :: jsval
  totalRounds :: nat
  meaningfulScore :: rat
  feedbacks :: "string list"
  labelCounts :: label_counts

record fnode = node +
  isFeedbackEmpty :: bool

record edge =
  from_id :: jsval
  to_id :: jsval
  completedAll :: bool
  hwName :: string

record graph_data =
  nodes :: "fnode list"
  links :: "edge list"

datatype mode = AllMode | RelevanceMode | ConcretenessMode | ConstructiveMode

text \<open>The \<open>hwNames\<close> argument is a single string or an array of strings.\<close>

datatype hw_names = HwString string | HwArray "string list"

text \<open>
  \<open>nodesMap\<close> is a JavaScript \<open>Map\<close>: it iterates in insertion order, and the object
  stored under a key is mutated in place. It is an association list with distinct keys;
  \<open>mapSet\<close> is only called for a key that is not present.
\<close>

type_synonym nodes_map = "(jsval \<times> node) list"

definition mapHas :: "nodes_map \<Rightarrow> jsval \<Rightarrow> bool" where
  "mapHas m k \<longleftrightarrow> k \<in> set (map fst m)"

fun mapSet :: "nodes_map \<Rightarrow> jsval \<Rightarrow> node \<Rightarrow> nodes_map" where
  "mapSet [] k v = [(k, v)]"
| "mapSet ((k', v') # m) k v = (if k' = k then (k', v) # m else (k', v') # mapSet m k v)"

text \<open>\<open>mapMutate m k f\<close>: the object \<open>m.get(k)\<close> is changed by \<open>f\<close>, in place.\<close>

fun mapMutate :: "nodes_map \<Rightarrow> jsval \<Rightarrow> (node \<Rightarrow> node) \<Rightarrow> nodes_map" where
  "mapMutate [] k f = []"
| "mapMutate ((k', v') # m) k f =
     (if k' = k then (k', f v') # m else (k', v') # mapMutate m k f)"

text \<open>\<open>(round.Feedback || "").trim()\<close>\<close>

definition feedbackOf :: "round_rec \<Rightarrow> string" where
  "feedbackOf r = trim (case Feedback r of TStr s \<Rightarrow> s | _ \<Rightarrow> [])"

text \<open>\<open>round.Relevance || 0\<close>: every falsy value (absent, \<open>null\<close>, \<open>0\<close>) gives \<open>0\<close>.\<close>

definition orZero :: "jsflag \<Rightarrow> rat" where
  "orZero f = (case f of FNum x \<Rightarrow> x | _ \<Rightarrow> 0)"

text \<open>The body of \<open>rounds.forEach(round => ...)\<close>, acting on the reviewer's node.\<close>

definition processRound :: "node \<Rightarrow> round_rec \<Rightarrow> node" where
  "processRound n r =
     (let feedback = feedbackOf r;
          n1 = n\<lparr>feedbacks := feedbacks n @ [feedback]\<rparr>;
          rel = orZero (Relevance r);
          conc = orZero (Concreteness r);
          constr = orZero (Constructive r)
      in if feedback \<noteq> [] then
           n1\<lparr>meaningfulScore := meaningfulScore n1 + (rel * 30 + conc * 30 + constr * 40),
              labelCounts := \<lparr>relevance = relevance (labelCounts n1) + rel,
                              concreteness = concreteness (labelCounts n1) + conc,
                              constructive = constructive (labelCounts n1) + constr\<rparr>\<rparr>
         else n1)"

text \<open>\<open>Array.isArray(assignment.Round) ? assignment.Round : []\<close>\<close>

definition roundsOf :: "assignment \<Rightarrow> round_rec list" where
  "roundsOf a = (case Round a of IsArray rs \<Rightarrow> rs | NotArray \<Rightarrow> [])"

definition newNode :: "jsval \<Rightarrow> node" where
  "newNode reviewerId =
     \<lparr>node_id = reviewerId, totalRounds = 0, meaningfulScore = 0, feedbacks = [],
      labelCounts = \<lparr>relevance = 0, concreteness = 0, constructive = 0\<rparr>\<rparr>"

text \<open>What one assignment record does to its reviewer's node.\<close>

definition absorb :: "node \<Rightarrow> assignment \<Rightarrow> node" where
  "absorb n a =
     foldl processRound (n\<lparr>totalRounds := totalRounds n + length (roundsOf a)\<rparr>) (roundsOf a)"

definition mkEdge :: "string \<Rightarrow> assignment \<Rightarrow> edge" where
  "mkEdge hw a =
     \<lparr>from_id = Reviewer a, to_id = Author a,
      completedAll = (length (roundsOf a) \<ge> 3), hwName = hw\<rparr>"

text \<open>The body of \<open>hwAssignments.forEach(assignment => ...)\<close> on the pair of
  \<open>nodesMap\<close> and \<open>links\<close>.\<close>

definition processAssignment ::
  "string \<Rightarrow> nodes_map \<times> edge list \<Rightarrow> assignment \<Rightarrow> nodes_map \<times> edge list" where
  "processAssignment hw st a =
     (let nodesMap = fst st; links0 = snd st;
          reviewerId = Reviewer a;
          nodesMap1 = (if \<not> mapHas nodesMap reviewerId
                       then mapSet nodesMap reviewerId (newNode reviewerId) else nodesMap);
          nodesMap2 = mapMutate nodesMap1 reviewerId (\<lambda>n. absorb n a)
      in (nodesMap2, links0 @ [mkEdge hw a]))"

text \<open>\<open>rawData[hwName] || []\<close>\<close>

definition hwAssignments :: "(string \<rightharpoonup> assignment list) \<Rightarrow> string \<Rightarrow> assignment list" where
  "hwAssignments rawData hw = (case rawData hw of Some as \<Rightarrow> as | None \<Rightarrow> [])"

definition processHw ::
  "(string \<rightharpoonup> assignment list) \<Rightarrow> nodes_map \<times> edge list \<Rightarrow> string \<Rightarrow> nodes_map \<times> edge list" where
  "processHw rawData st hw = foldl (processAssignment hw) st (hwAssignments rawData hw)"

definition hwNamesList :: "hw_names \<Rightarrow> string list" where
  "hwNamesList h = (case h of HwString s \<Rightarrow> [s] | HwArray xs \<Rightarrow> xs)"

text \<open>The final \<open>map\<close> over \<open>nodesMap.values()\<close>.\<close>

definition finalize :: "node \<Rightarrow> fnode" where
  "finalize n =
     (let validRounds = length (filter (\<lambda>fb. fb \<noteq> []) (feedbacks n));
          avgScore = (if validRounds > 0 then meaningfulScore n / of_nat validRounds else 0)
      in node.extend (n\<lparr>meaningfulScore := min avgScore 100\<rparr>)
           (fnode.fields (list_all (\<lambda>fb. fb = []) (feedbacks n))))"

definition processReviewerData ::
  "(string \<rightharpoonup> assignment list) \<Rightarrow> mode \<Rightarrow> hw_names \<Rightarrow> graph_data" where
  "processReviewerData rawData md hwNames =
     (let st = foldl (processHw rawData) ([], []) (hwNamesList hwNames)
      in \<lparr>nodes = map (finalize \<circ> snd) (fst st), links = snd st\<rparr>)"

section \<open>\<open>processReviewerData\<close> on an arbitrary \<open>rawData\<close> object\<close>

text \<open>
  \<open>processReviewerData\<close> above takes a \<open>rawData\<close> whose keys hold arrays of records.
  The object that the page reads from the JSON document can hold anything under a key,
  and, being a plain object, it answers the names of \<open>Object.prototype\<close> as well. What
  \<open>rawData[hwName]\<close> gives is an array of records, a falsy value, or another value,
  which is truthy and has no \<open>forEach\<close>: calling it raises a \<open>TypeError\<close>.
\<close>

datatype hw_value = HwRecords "assignment list" | HwFalsy | HwOther

definition inheritedNames :: "string list" where
  "inheritedNames =
     [''constructor'', ''hasOwnProperty'', ''isPrototypeOf'', ''propertyIsEnumerable'',
      ''toLocaleString'', ''toString'', ''valueOf'', ''__defineGetter__'', ''__defineSetter__'',
      ''__lookupGetter__'', ''__lookupSetter__'', ''__proto__'']"

text \<open>\<open>rawData[hwName]\<close>: the own property, else the inherited one, else \<open>undefined\<close>.\<close>

definition getHw :: "(string \<rightharpoonup> hw_value) \<Rightarrow> string \<Rightarrow> hw_value" where
  "getHw rawData hw =
     (case rawData hw of
        Some v \<Rightarrow> v
      | None \<Rightarrow> if hw \<in> set inheritedNames then HwOther else HwFalsy)"

text \<open>The body of \<open>hwNames.forEach\<close>: \<open>(rawData[hwName] || []).forEach(...)\<close>.\<close>

definition processHw_js ::
  "(string \<rightharpoonup> hw_value) \<Rightarrow> nodes_map \<times> edge list \<Rightarrow> string \<Rightarrow> error + nodes_map \<times> edge list" where
  "processHw_js rawData st hw =
     (case getHw rawData hw of
        HwRecords records \<Rightarrow> Inr (foldl (processAssignment hw) st records)
      | HwFalsy \<Rightarrow> Inr st
      | HwOther \<Rightarrow> Inl TypeError)"

definition processReviewerData_js ::
  "(string \<rightharpoonup> hw_value) \<Rightarrow> mode \<Rightarrow> hw_names \<Rightarrow> error + graph_data" where
  "processReviewerData_js rawData md hwNames =
     (case forEach (processHw_js rawData) ([], []) (hwNamesList hwNames) of
        Inl e \<Rightarrow> Inl e
      | Inr st \<Rightarrow> Inr \<lparr>nodes = map (finalize \<circ> snd) (fst st), links = snd st\<rparr>)"

section \<open>Scoring and styling: the node mapping of \<open>generateGraph\<close>\<close>

definition completedCount :: "string list \<Rightarrow> nat" where
  "completedCount fbs = length (filter (\<lambda>fb. fb \<noteq> []) fbs)"

text \<open>\<open>assignmentCount > 0 ? completedAssignments / assignmentCount : 0\<close>\<close>

definition completionRate :: "'a fnode_scheme \<Rightarrow> rat" where
  "completionRate n =
     (let assignmentCount = length (feedbacks n);
          completedAssignments = completedCount (feedbacks n)
      in if assignmentCount > 0 then of_nat completedAssignments / of_nat assignmentCount else 0)"

definition sizeScale :: "rat \<Rightarrow> rat" where
  "sizeScale rate = 15 + rate * 35"

text \<open>The colour score: for \<open>all\<close> the mean of the three label rates, for a single
  label \<open>n.labelCounts[mode] / totalFeedbacks\<close>.\<close>

definition score :: "mode \<Rightarrow> 'a fnode_scheme \<Rightarrow> rat" where
  "score md n =
     (let totalFeedbacks = completedCount (feedbacks n)
      in case md of
           AllMode \<Rightarrow>
             (if totalFeedbacks > 0 then
                (relevance (labelCounts n) / of_nat totalFeedbacks
                 + concreteness (labelCounts n) / of_nat totalFeedbacks
                 + constructive (labelCounts n) / of_nat totalFeedbacks) / 3
              else 0)
         | RelevanceMode \<Rightarrow>
             (if totalFeedbacks > 0 then relevance (labelCounts n) / of_nat totalFeedbacks else 0)
         | ConcretenessMode \<Rightarrow>
             (if totalFeedbacks > 0 then concreteness (labelCounts n) / of_nat totalFeedbacks else 0)
         | ConstructiveMode \<Rightarrow>
             (if totalFeedbacks > 0 then constructive (labelCounts n) / of_nat totalFeedbacks else 0))"

definition colors :: "mode \<Rightarrow> string list" where
  "colors md =
     (case md of
        RelevanceMode \<Rightarrow> [''#FFEEB7'', ''#FFD753'', ''#F1BC0D'', ''#D4A302'']
      | ConcretenessMode \<Rightarrow> [''#CFFFCA'', ''#95ED65'', ''#54AF23'', ''#327111'']
      | ConstructiveMode \<Rightarrow> [''#F1DCFF'', ''#C78EED'', ''#9444CA'', ''#590A8E'']
      | AllMode \<Rightarrow> [''#F0F0F0'', ''#E0E0E0'', ''#757575'', ''#424242''])"

definition tier :: "rat \<Rightarrow> nat" where
  "tier s = (if s \<ge> 3 / 4 then 3 else if s \<ge> 1 / 2 then 2 else if s \<ge> 1 / 4 then 1 else 0)"

record vis_node =
  vis_id :: jsval
  vis_label :: jsval
  vis_value :: rat
  vis_color :: string

text \<open>One element of \<open>visNodes\<close>; the tooltip text (\<open>title\<close>) and the constant fields
  \<open>borderWidth\<close> and \<open>shape\<close> are left out.\<close>

definition visNode :: "mode \<Rightarrow> fnode \<Rightarrow> vis_node" where
  "visNode md n =
     \<lparr>vis_id = node_id n, vis_label = node_id n,
      vis_value = sizeScale (completionRate n),
      vis_color = colors md ! tier (score md n)\<rparr>"

text \<open>\<open>visNodes\<close> as \<open>generateGraph\<close> builds it from the aggregated nodes (the branch
  in which the render target exists).\<close>

definition visNodes :: "(string \<rightharpoonup> assignment list) \<Rightarrow> mode \<Rightarrow> hw_names \<Rightarrow> vis_node list" where
  "visNodes rawData md hwNames = map (visNode md) (nodes (processReviewerData rawData md hwNames))"

section \<open>Numbers with \<open>NaN\<close> and the infinities\<close>

text \<open>
  \<open>maxDouble\<close> is the rounding boundary of the largest double: a real number at or
  beyond it rounds to \<open>Infinity\<close>, a real number at or below its negative to
  \<open>-Infinity\<close>. \<open>toNum\<close> is the number that JavaScript has for an exact result.
  \<open>jsAdd\<close> is \<open>+\<close> on numbers, \<open>jsDivNat x n\<close> is \<open>x / n\<close> for a count \<open>n\<close>,
  \<open>jsMin\<close> and \<open>jsMax\<close> are \<open>Math.min\<close> and \<open>Math.max\<close> on two arguments: each gives
  \<open>NaN\<close> as soon as one argument is \<open>NaN\<close>.
\<close>

definition maxDouble :: rat where
  "maxDouble = 2 ^ 1024 - 2 ^ 970"

definition toNum :: "rat \<Rightarrow> jsnum" where
  "toNum x = (if maxDouble \<le> x then PInf else if x \<le> - maxDouble then NInf else Fin x)"

fun jsAdd :: "jsnum \<Rightarrow> jsnum \<Rightarrow> jsnum" where
  "jsAdd NaN y = NaN"
| "jsAdd x NaN = NaN"
| "jsAdd (Fin x) (Fin y) = toNum (x + y)"
| "jsAdd (Fin x) PInf = PInf"
| "jsAdd (Fin x) NInf = NInf"
| "jsAdd PInf (Fin y) = PInf"
| "jsAdd NInf (Fin y) = NInf"
| "jsAdd PInf PInf = PInf"
| "jsAdd NInf NInf = NInf"
| "jsAdd PInf NInf = NaN"
| "jsAdd NInf PInf = NaN"

fun jsDivNat :: "jsnum \<Rightarrow> nat \<Rightarrow> jsnum" where
  "jsDivNat NaN n = NaN"
| "jsDivNat PInf n = PInf"
| "jsDivNat NInf n = NInf"
| "jsDivNat (Fin x) n =
     (if n = 0 then (if x = 0 then NaN else if x > 0 then PInf else NInf)
      else Fin (x / of_nat n))"

fun jsMin :: "jsnum \<Rightarrow> jsnum \<Rightarrow> jsnum" where
  "jsMin NaN y = NaN"
| "jsMin x NaN = NaN"
| "jsMin NInf y = NInf"
| "jsMin x NInf = NInf"
| "jsMin PInf y = y"
| "jsMin x PInf = x"
| "jsMin (Fin x) (Fin y) = Fin (min x y)"

fun jsMax :: "jsnum \<Rightarrow> jsnum \<Rightarrow> jsnum" where
  "jsMax NaN y = NaN"
| "jsMax x NaN = NaN"
| "jsMax PInf y = PInf"
| "jsMax x PInf = PInf"
| "jsMax NInf y = y"
| "jsMax x NInf = x"
| "jsMax (Fin x) (Fin y) = Fin (max x y)"

fun jsNeg :: "jsnum \<Rightarrow> jsnum" where
  "jsNeg NaN = NaN"
| "jsNeg (Fin x) = Fin (- x)"
| "jsNeg PInf = NInf"
| "jsNeg NInf = PInf"

definition isNaN :: "jsnum \<Rightarrow> bool" where
  "isNaN x \<longleftrightarrow> x = NaN"

subsection \<open>\<open>parseFloat\<close>\<close>

text \<open>
  \<open>parseFloat\<close> turns its argument into a string, drops leading white space and reads
  the longest prefix that is a decimal literal: an optional sign, then \<open>Infinity\<close> or
  digits with an optional fraction and an optional exponent. It gives \<open>NaN\<close> when there
  is no such prefix. The value of the literal is read as a number, so a literal beyond
  the range of the doubles gives an infinity. A number goes through its own printed form
  and comes back unchanged (a JSON number beyond the range is already an infinity when
  the document is read); \<open>undefined\<close>, \<open>null\<close>, \<open>true\<close> and \<open>false\<close> print as words
  and give \<open>NaN\<close>.
\<close>

definition isDigit :: "char \<Rightarrow> bool" where
  "isDigit c \<longleftrightarrow> 48 \<le> (of_char c :: nat) \<and> (of_char c :: nat) \<le> 57"

definition digitsVal :: "string \<Rightarrow> nat" where
  "digitsVal ds = foldl (\<lambda>n c. 10 * n + (of_char c - 48)) 0 ds"

definition expDigits :: "string \<Rightarrow> nat option" where
  "expDigits s = (let ds = takeWhile isDigit s in if ds = [] then None else Some (digitsVal ds))"

text \<open>The exponent part at the head of \<open>s\<close>, as a factor; \<open>1\<close> when there is none.\<close>

definition exponentFactor :: "string \<Rightarrow> rat" where
  "exponentFactor s =
     (case s of
        [] \<Rightarrow> 1
      | c # t \<Rightarrow>
          if c = CHR ''e'' \<or> c = CHR ''E'' then
            (case t of
               [] \<Rightarrow> 1
             | d # u \<Rightarrow>
                 if d = CHR ''-'' then (case expDigits u of None \<Rightarrow> 1 | Some e \<Rightarrow> 1 / 10 ^ e)
                 else if d = CHR ''+'' then (case expDigits u of None \<Rightarrow> 1 | Some e \<Rightarrow> 10 ^ e)
                 else (case expDigits t of None \<Rightarrow> 1 | Some e \<Rightarrow> 10 ^ e))
          else 1)"

definition parseUnsigned :: "string \<Rightarrow> jsnum" where
  "parseUnsigned s =
     (if take 8 s = ''Infinity'' then PInf
      else
        let ip = takeWhile isDigit s;
            r1 = dropWhile isDigit s;
            hasDot = (case r1 of [] \<Rightarrow> False | c # _ \<Rightarrow> c = CHR ''.'');
            fp = (if hasDot then takeWhile isDigit (tl r1) else []);
            r2 = (if hasDot then dropWhile isDigit (tl r1) else r1)
        in if ip = [] \<and> fp = [] then NaN
           else toNum (of_nat (digitsVal (ip @ fp)) / 10 ^ length fp * exponentFactor r2))"

definition parseFloat :: "jsval \<Rightarrow> jsnum" where
  "parseFloat v =
     (case v of
        JNum x \<Rightarrow> toNum x
      | JStr s \<Rightarrow>
          (case trimStart s of
             [] \<Rightarrow> NaN
           | c # u \<Rightarrow>
               if c = CHR ''-'' then jsNeg (parseUnsigned u)
               else if c = CHR ''+'' then parseUnsigned u
               else parseUnsigned (c # u))
      | _ \<Rightarrow> NaN)"

section \<open>Label averages: \<open>calculateReviewerLabelAverages\<close> and \<open>getAvgLabelQuality\<close>\<close>

text \<open>
  \<open>toUpperCase\<close> on a string of code units below 256, by the case mapping of Unicode:
  the letters \<open>a\<close> to \<open>z\<close> and the Latin-1 letters from U+00E0 to U+00FE (but the
  division sign U+00F7) go to the letter 32 places below, the micro sign U+00B5 goes to
  U+039C, the sharp s U+00DF to \<open>SS\<close>, U+00FF to U+0178, and nothing else changes.
\<close>

definition upperUnits :: "char \<Rightarrow> nat list" where
  "upperUnits c =
     (let n = of_char c
      in if 97 \<le> n \<and> n \<le> 122 then [n - 32]
         else if n = 181 then [924]
         else if n = 223 then [83, 83]
         else if 224 \<le> n \<and> n \<le> 254 \<and> n \<noteq> 247 then [n - 32]
         else if n = 255 then [376]
         else [n])"

definition toUpperCase :: "string \<Rightarrow> nat list" where
  "toUpperCase s = concat (map upperUnits s)"

text \<open>The property name of \<open>undefined\<close>.\<close>

definition undefinedName :: "nat list" where
  "undefinedName = map of_char ''undefined''"

text \<open>
  \<open>assignment.Reviewer?.trim().toUpperCase()\<close>, used as a property name of the plain
  object \<open>reviewerStats\<close>: an absent or \<open>null\<close> reviewer gives \<open>undefined\<close>, whose
  property name is the string \<open>undefined\<close>; a number or a boolean has no \<open>trim\<close>, and
  the call raises.
\<close>

definition reviewerKey :: "'a assignment_scheme \<Rightarrow> error + nat list" where
  "reviewerKey a =
     (case Reviewer a of
        JStr s \<Rightarrow> Inr (toUpperCase (trim s))
      | JUndefined \<Rightarrow> Inr undefinedName
      | JNull \<Rightarrow> Inr undefinedName
      | JNum x \<Rightarrow> Inl TypeError
      | JBool b \<Rightarrow> Inl TypeError)"

record label_stats =
  totalLabel :: jsnum
  count :: nat

text \<open>The body of the inner \<open>rounds.forEach\<close> of the first pass.\<close>

definition addLabel :: "label_stats \<Rightarrow> round_rec \<Rightarrow> label_stats" where
  "addLabel st r =
     (let label = parseFloat (Label r)
      in if \<not> isNaN label
         then st\<lparr>totalLabel := jsAdd (totalLabel st) label, count := count st + 1\<rparr>
         else st)"

text \<open>The body of the first \<open>assignments.forEach\<close>: the reviewer key is computed first;
  a record whose \<open>Round\<close> is not an array then returns before \<open>reviewerStats\<close> is
  touched.\<close>

definition tally ::
  "(nat list \<rightharpoonup> label_stats) \<Rightarrow> 'a assignment_scheme \<Rightarrow> error + (nat list \<rightharpoonup> label_stats)" where
  "tally reviewerStats a =
     (case reviewerKey a of
        Inl e \<Rightarrow> Inl e
      | Inr reviewer \<Rightarrow>
          (case Round a of
             NotArray \<Rightarrow> Inr reviewerStats
           | IsArray rounds \<Rightarrow>
               (let st0 = (case reviewerStats reviewer of
                             None \<Rightarrow> \<lparr>totalLabel = Fin 0, count = 0\<rparr>
                           | Some st \<Rightarrow> st)
                in Inr (reviewerStats(reviewer \<mapsto> foldl addLabel st0 rounds)))))"

record assignment_avg = assignment +
  avgLabel :: jsnum

text \<open>The body of the second \<open>assignments.forEach\<close>.\<close>

definition annotate :: "(nat list \<rightharpoonup> label_stats) \<Rightarrow> assignment \<Rightarrow> error + assignment_avg" where
  "annotate reviewerStats a =
     (case reviewerKey a of
        Inl e \<Rightarrow> Inl e
      | Inr reviewer \<Rightarrow>
          Inr (assignment.extend a
                 (assignment_avg.fields
                    (case reviewerStats reviewer of
                       Some st \<Rightarrow> if count st > 0 then jsDivNat (totalLabel st) (count st) else NaN
                     | None \<Rightarrow> NaN))))"

definition calculateReviewerLabelAverages :: "assignment list \<Rightarrow> error + assignment_avg list" where
  "calculateReviewerLabelAverages assignments =
     (case forEach tally Map.empty assignments of
        Inl e \<Rightarrow> Inl e
      | Inr reviewerStats \<Rightarrow> forEachMap (annotate reviewerStats) assignments)"

text \<open>\<open>r.Feedback && r.Feedback.trim() !== ""\<close>\<close>

definition hasFeedback :: "round_rec \<Rightarrow> bool" where
  "hasFeedback r = (case Feedback r of TStr s \<Rightarrow> s \<noteq> [] \<and> trim s \<noteq> [] | _ \<Rightarrow> False)"

text \<open>\<open>parseFloat(r.Label) || 0\<close>: \<open>NaN\<close> and \<open>0\<close> are the falsy numbers.\<close>

definition labelOrZero :: "round_rec \<Rightarrow> jsnum" where
  "labelOrZero r = (let x = parseFloat (Label r) in if x = NaN \<or> x = Fin 0 then Fin 0 else x)"

definition getAvgLabelQuality :: "jsrounds \<Rightarrow> jsnum" where
  "getAvgLabelQuality rounds =
     (case rounds of
        NotArray \<Rightarrow> Fin 0
      | IsArray rs \<Rightarrow>
          if length rs = 0 then Fin 0
          else
            let validFeedbacks = filter hasFeedback rs
            in if length validFeedbacks = 0 then Fin 0
               else
                 let totalLabel = foldl (\<lambda>sum r. jsAdd sum (labelOrZero r)) (Fin 0) validFeedbacks;
                     avgLabelQuality = jsDivNat totalLabel (length validFeedbacks)
                 in jsMax (Fin 0) (jsMin (Fin 1) avgLabelQuality))"

section \<open>Label frequency per homework: \<open>calculateHwLabelFrequency\<close>\<close>

text \<open>
  \<open>data\<close> is a plain object; it is given by its entries, in the order of
  \<open>Object.keys\<close>, and an object has every key once. \<open>hwStats\<close> and the result are
  objects keyed by homework name.
\<close>

record hw_stats =
  total :: nat
  relevance_n :: nat
  concreteness_n :: nat
  constructive_n :: nat

record hw_percent =
  relevance_pct :: rat
  concreteness_pct :: rat
  constructive_pct :: rat
  total_pct :: nat

text \<open>The body of \<open>student.Round.forEach\<close>: only a round with all three flags defined
  is counted.\<close>

definition countRound :: "hw_stats \<Rightarrow> round_rec \<Rightarrow> hw_stats" where
  "countRound st r =
     (if Relevance r \<noteq> FUndefined \<and> Concreteness r \<noteq> FUndefined \<and> Constructive r \<noteq> FUndefined
      then \<lparr>total = total st + 1,
            relevance_n = (if Relevance r = FNum 1 then relevance_n st + 1 else relevance_n st),
            concreteness_n = (if Concreteness r = FNum 1 then concreteness_n st + 1 else concreteness_n st),
            constructive_n = (if Constructive r = FNum 1 then constructive_n st + 1 else constructive_n st)\<rparr>
      else st)"

text \<open>\<open>if (student.Round && Array.isArray(student.Round))\<close>\<close>

definition countStudent :: "hw_stats \<Rightarrow> assignment \<Rightarrow> hw_stats" where
  "countStudent st student =
     (case Round student of IsArray rounds \<Rightarrow> foldl countRound st rounds | NotArray \<Rightarrow> st)"

text \<open>One entry of the counting pass; \<open>hwStats[hwName]\<close> exists for every key of
  \<open>data\<close> after the initialising pass.\<close>

definition countHw :: "(string \<rightharpoonup> hw_stats) \<Rightarrow> string \<times> assignment list \<Rightarrow> (string \<rightharpoonup> hw_stats)" where
  "countHw hwStats e =
     (case hwStats (fst e) of
        Some st \<Rightarrow> hwStats(fst e \<mapsto> foldl countStudent st (snd e))
      | None \<Rightarrow> hwStats)"

definition percentage :: "hw_stats \<Rightarrow> hw_percent" where
  "percentage stats =
     (if total stats > 0 then
        \<lparr>relevance_pct = of_nat (relevance_n stats) / of_nat (total stats) * 100,
         concreteness_pct = of_nat (concreteness_n stats) / of_nat (total stats) * 100,
         constructive_pct = of_nat (constructive_n stats) / of_nat (total stats) * 100,
         total_pct = total stats\<rparr>
      else \<lparr>relevance_pct = 0, concreteness_pct = 0, constructive_pct = 0, total_pct = 0\<rparr>)"

definition calculateHwLabelFrequency :: "(string \<times> assignment list) list \<Rightarrow> (string \<rightharpoonup> hw_percent)" where
  "calculateHwLabelFrequency data =
     (let hwStats0 = foldl (\<lambda>m hwName. m(hwName \<mapsto>
                         \<lparr>total = 0, relevance_n = 0, concreteness_n = 0, constructive_n = 0\<rparr>))
                       Map.empty (map fst data);
          hwStats = foldl countHw hwStats0 data
      in (\<lambda>hwName. map_option percentage (hwStats hwName)))"

section \<open>Vocabulary of the properties\<close>

text \<open>
  The definitions of this section are not code of the repository: they name what the
  properties speak about (the records selected by \<open>hwNames\<close>, the rounds assigned to a
  reviewer, a round with non-empty feedback, the weighted score of a round) and the
  step of the aggregation on \<open>nodesMap\<close> alone.
\<close>

definition stepNode :: "nodes_map \<Rightarrow> assignment \<Rightarrow> nodes_map" where
  "stepNode m a =
     mapMutate (if \<not> mapHas m (Reviewer a) then mapSet m (Reviewer a) (newNode (Reviewer a)) else m)
       (Reviewer a) (\<lambda>n. absorb n a)"

definition nodeOr :: "nodes_map \<Rightarrow> jsval \<Rightarrow> node" where
  "nodeOr m k = (case map_of m k of None \<Rightarrow> newNode k | Some n \<Rightarrow> n)"

text \<open>The records that the aggregation folds, in the order in which it folds them.\<close>

definition selected :: "(string \<rightharpoonup> assignment list) \<Rightarrow> hw_names \<Rightarrow> assignment list" where
  "selected rawData hwNames = concat (map (hwAssignments rawData) (hwNamesList hwNames))"

text \<open>The rounds assigned to reviewer \<open>k\<close> in the selected records.\<close>

definition reviewerRounds :: "(string \<rightharpoonup> assignment list) \<Rightarrow> hw_names \<Rightarrow> jsval \<Rightarrow> round_rec list" where
  "reviewerRounds rawData hwNames k =
     concat (map roundsOf (filter (\<lambda>a. Reviewer a = k) (selected rawData hwNames)))"

definition validRound :: "round_rec \<Rightarrow> bool" where
  "validRound r \<longleftrightarrow> feedbackOf r \<noteq> []"

definition roundScore :: "round_rec \<Rightarrow> rat" where
  "roundScore r =
     orZero (Relevance r) * 30 + orZero (Concreteness r) * 30 + orZero (Constructive r) * 40"

text \<open>The scenario of the specification: one homework key, one record, two rounds.\<close>

definition scenarioRecords :: "assignment list" where
  "scenarioRecords =
     [\<lparr>Author = JStr ''B'', Reviewer = JStr ''A'',
       Round = IsArray
         [\<lparr>Feedback = TStr ''good'', Relevance = FNum 1, Concreteness = FNum 0,
           Constructive = FNum 1, Label = JUndefined\<rparr>,
          \<lparr>Feedback = TStr '''', Relevance = FNum 1, Concreteness = FNum 1,
           Constructive = FNum 1, Label = JUndefined\<rparr>]\<rparr>]"

definition scenarioData :: "string \<rightharpoonup> assignment list" where
  "scenarioData = [''HW1'' \<mapsto> scenarioRecords]"

definition scenarioNode :: fnode where
  "scenarioNode =
     \<lparr>node_id = JStr ''A'', totalRounds = 2, meaningfulScore = 70, feedbacks = [''good'', ''''],
      labelCounts = \<lparr>relevance = 1, concreteness = 0, constructive = 1\<rparr>,
      isFeedbackEmpty = False\<rparr>"

text \<open>A reviewer with two records and no round: one \<open>Round\<close> is the empty array, the
  other is not an array.\<close>

definition idleData :: "string \<rightharpoonup> assignment list" where
  "idleData =
     [''HW1'' \<mapsto>
        [\<lparr>Author = JStr ''B'', Reviewer = JStr ''A'', Round = IsArray []\<rparr>,
         \<lparr>Author = JStr ''C'', Reviewer = JStr ''A'', Round = NotArray\<rparr>]]"

definition idleNode :: fnode where
  "idleNode =
     \<lparr>node_id = JStr ''A'', totalRounds = 0, meaningfulScore = 0, feedbacks = [],
      labelCounts = \<lparr>relevance = 0, concreteness = 0, constructive = 0\<rparr>,
      isFeedbackEmpty = True\<rparr>"

text \<open>The three flags of a round are 0 or 1, as the code reads them (an absent or
  \<open>null\<close> flag is read as 0).\<close>

definition flags01 :: "round_rec \<Rightarrow> bool" where
  "flags01 r \<longleftrightarrow>
     (orZero (Relevance r) = 0 \<or> orZero (Relevance r) = 1) \<and>
     (orZero (Concreteness r) = 0 \<or> orZero (Concreteness r) = 1) \<and>
     (orZero (Constructive r) = 0 \<or> orZero (Constructive r) = 1)"

text \<open>A round that the frequency count takes into the total: no flag is \<open>undefined\<close>.\<close>

definition allDefined :: "round_rec \<Rightarrow> bool" where
  "allDefined r \<longleftrightarrow>
     Relevance r \<noteq> FUndefined \<and> Concreteness r \<noteq> FUndefined \<and> Constructive r \<noteq> FUndefined"

text \<open>The frequency scenario of the specification: one homework key, two rounds, the
  first with the three flags equal to 1, the second with only \<open>Relevance\<close> defined.\<close>

definition freqRecords :: "assignment list" where
  "freqRecords =
     [\<lparr>Author = JStr ''B'', Reviewer = JStr ''A'',
       Round = IsArray
         [\<lparr>Feedback = TStr ''good'', Relevance = FNum 1, Concreteness = FNum 1,
           Constructive = FNum 1, Label = JUndefined\<rparr>,
          \<lparr>Feedback = TStr ''fine'', Relevance = FNum 1, Concreteness = FUndefined,
           Constructive = FUndefined, Label = JUndefined\<rparr>]\<rparr>]"

definition freqData :: "(string \<times> assignment list) list" where
  "freqData = [(''HW1'', freqRecords)]"

text \<open>
  A reviewer on which \<open>trim\<close> can be called or is skipped (a string, \<open>null\<close> or
  absent), the reviewer key of such a record, and the two passes of
  \<open>calculateReviewerLabelAverages\<close> on records that all have such a reviewer.
\<close>

definition textReviewer :: "'a assignment_scheme \<Rightarrow> bool" where
  "textReviewer a = (case Reviewer a of JNum x \<Rightarrow> False | JBool b \<Rightarrow> False | _ \<Rightarrow> True)"

definition keyName :: "'a assignment_scheme \<Rightarrow> nat list" where
  "keyName a = (case Reviewer a of JStr s \<Rightarrow> toUpperCase (trim s) | _ \<Rightarrow> undefinedName)"

text \<open>The statistics of a reviewer key, zero when \<open>reviewerStats\<close> has no entry for it.\<close>

definition statsOr :: "(nat list \<rightharpoonup> label_stats) \<Rightarrow> nat list \<Rightarrow> label_stats" where
  "statsOr m k = (case m k of None \<Rightarrow> \<lparr>totalLabel = Fin 0, count = 0\<rparr> | Some st \<Rightarrow> st)"

definition tallyStats :: "(nat list \<rightharpoonup> label_stats) \<Rightarrow> 'a assignment_scheme \<Rightarrow> (nat list \<rightharpoonup> label_stats)" where
  "tallyStats m a =
     (case Round a of
        NotArray \<Rightarrow> m
      | IsArray rounds \<Rightarrow> m(keyName a \<mapsto> foldl addLabel (statsOr m (keyName a)) rounds))"

definition averageOf :: "label_stats \<Rightarrow> jsnum" where
  "averageOf st = (if count st > 0 then jsDivNat (totalLabel st) (count st) else NaN)"

definition annotated :: "(nat list \<rightharpoonup> label_stats) \<Rightarrow> assignment \<Rightarrow> assignment_avg" where
  "annotated m a = assignment.extend a (assignment_avg.fields (averageOf (statsOr m (keyName a))))"

text \<open>The parseable labels of a list of rounds.\<close>

definition parsedLabels :: "round_rec list \<Rightarrow> jsnum list" where
  "parsedLabels rs = filter (\<lambda>x. \<not> isNaN x) (map (\<lambda>r. parseFloat (Label r)) rs)"


text \<open>The names of \<open>Object.prototype\<close> as code units: \<open>reviewerStats\<close> is created as
  \<open>{}\<close> and inherits them.\<close>

definition inheritedUnits :: "nat list list" where
  "inheritedUnits = map (map of_char) inheritedNames"

text \<open>A record with a numeric reviewer and a \<open>Round\<close> that is not an array.\<close>

definition numericReviewer :: "assignment list" where
  "numericReviewer = [\<lparr>Author = JStr ''B'', Reviewer = JNum 123, Round = NotArray\<rparr>]"



text \<open>Two rounds with feedback whose labels are the strings \<open>Infinity\<close> and
  \<open>-Infinity\<close>.\<close>

definition infiniteLabels :: jsrounds where
  "infiniteLabels =
     IsArray
       [\<lparr>Feedback = TStr ''a'', Relevance = FUndefined, Concreteness = FUndefined,
         Constructive = FUndefined, Label = JStr ''Infinity''\<rparr>,
        \<lparr>Feedback = TStr ''b'', Relevance = FUndefined, Concreteness = FUndefined,
         Constructive = FUndefined, Label = JStr ''-Infinity''\<rparr>]"

text \<open>The number that a label contributes to the quality average when it is finite.\<close>

definition labelValue :: "round_rec \<Rightarrow> rat" where
  "labelValue r = (case parseFloat (Label r) of Fin x \<Rightarrow> x | _ \<Rightarrow> 0)"

definition finiteLabel :: "round_rec \<Rightarrow> bool" where
  "finiteLabel r \<longleftrightarrow> parseFloat (Label r) \<noteq> PInf \<and> parseFloat (Label r) \<noteq> NInf"


text \<open>
  The three labels, the flag of a label in a round, and the input in which the flag of
  label \<open>L\<close> is set to 1 in round \<open>j\<close> of record \<open>i\<close> of homework key \<open>hw\<close>, all else
  fixed. \<open>nodeFor\<close> is the node of a reviewer in the result of the aggregation.
\<close>

datatype label = RelevanceLabel | ConcretenessLabel | ConstructiveLabel

definition flagOf :: "label \<Rightarrow> round_rec \<Rightarrow> jsflag" where
  "flagOf L r =
     (case L of RelevanceLabel \<Rightarrow> Relevance r | ConcretenessLabel \<Rightarrow> Concreteness r
      | ConstructiveLabel \<Rightarrow> Constructive r)"

definition raiseFlag :: "label \<Rightarrow> round_rec \<Rightarrow> round_rec" where
  "raiseFlag L r =
     (case L of RelevanceLabel \<Rightarrow> r\<lparr>Relevance := FNum 1\<rparr>
      | ConcretenessLabel \<Rightarrow> r\<lparr>Concreteness := FNum 1\<rparr>
      | ConstructiveLabel \<Rightarrow> r\<lparr>Constructive := FNum 1\<rparr>)"

definition labelMode :: "label \<Rightarrow> mode" where
  "labelMode L =
     (case L of RelevanceLabel \<Rightarrow> RelevanceMode | ConcretenessLabel \<Rightarrow> ConcretenessMode
      | ConstructiveLabel \<Rightarrow> ConstructiveMode)"

definition labelCount :: "label \<Rightarrow> label_counts \<Rightarrow> rat" where
  "labelCount L lc =
     (case L of RelevanceLabel \<Rightarrow> relevance lc | ConcretenessLabel \<Rightarrow> concreteness lc
      | ConstructiveLabel \<Rightarrow> constructive lc)"

definition weight :: "label \<Rightarrow> rat" where
  "weight L = (case L of RelevanceLabel \<Rightarrow> 30 | ConcretenessLabel \<Rightarrow> 30 | ConstructiveLabel \<Rightarrow> 40)"

definition raiseAt ::
  "(string \<rightharpoonup> assignment list) \<Rightarrow> string \<Rightarrow> nat \<Rightarrow> nat \<Rightarrow> label \<Rightarrow> (string \<rightharpoonup> assignment list)" where
  "raiseAt rawData hw i j L =
     (case rawData hw of
        None \<Rightarrow> rawData
      | Some as \<Rightarrow>
          rawData(hw \<mapsto> as[i := (as ! i)\<lparr>Round :=
                           IsArray ((roundsOf (as ! i))[j := raiseFlag L (roundsOf (as ! i) ! j)])\<rparr>]))"

definition nodeFor :: "graph_data \<Rightarrow> jsval \<Rightarrow> fnode option" where
  "nodeFor g k = find (\<lambda>n. node_id n = k) (nodes g)"

text \<open>Three records for the label averages: two of reviewer \<open>A1\<close> (one of them with a
  \<open>Round\<close> that is not an array), one of reviewer \<open>B\<close> whose only label does not parse.\<close>

definition avgExample :: "assignment list" where
  "avgExample =
     [\<lparr>Author = JStr ''x'', Reviewer = JStr '' a1 '',
       Round = IsArray
         [\<lparr>Feedback = TStr ''ok'', Relevance = FUndefined, Concreteness = FUndefined,
           Constructive = FUndefined, Label = JStr ''1''\<rparr>,
          \<lparr>Feedback = TStr ''ok'', Relevance = FUndefined, Concreteness = FUndefined,
           Constructive = FUndefined, Label = JNum (1 / 2)\<rparr>]\<rparr>,
      \<lparr>Author = JStr ''y'', Reviewer = JStr ''A1'', Round = NotArray\<rparr>,
      \<lparr>Author = JStr ''z'', Reviewer = JStr ''b'',
       Round = IsArray
         [\<lparr>Feedback = TStr ''ok'', Relevance = FUndefined, Concreteness = FUndefined,
           Constructive = FUndefined, Label = JStr ''n/a''\<rparr>]\<rparr>]"

text \<open>Two records whose reviewers are the letter U+00E9 and its capital U+00C9, with
  the labels 1 and 0.\<close>

definition latinExample :: "assignment list" where
  "latinExample =
     [\<lparr>Author = JStr ''x'', Reviewer = JStr [CHR 0xE9],
       Round = IsArray
         [\<lparr>Feedback = TStr ''ok'', Relevance = FUndefined, Concreteness = FUndefined,
           Constructive = FUndefined, Label = JNum 1\<rparr>]\<rparr>,
      \<lparr>Author = JStr ''y'', Reviewer = JStr [CHR 0xC9],
       Round = IsArray
         [\<lparr>Feedback = TStr ''ok'', Relevance = FUndefined, Concreteness = FUndefined,
           Constructive = FUndefined, Label = JNum 0\<rparr>]\<rparr>]"

text \<open>One record whose two labels are beyond the range of the doubles.\<close>

definition overflowExample :: "assignment list" where
  "overflowExample =
     [\<lparr>Author = JStr ''x'', Reviewer = JStr ''A'',
       Round = IsArray
         [\<lparr>Feedback = TStr ''ok'', Relevance = FUndefined, Concreteness = FUndefined,
           Constructive = FUndefined, Label = JStr ''1e999''\<rparr>,
          \<lparr>Feedback = TStr ''ok'', Relevance = FUndefined, Concreteness = FUndefined,
           Constructive = FUndefined, Label = JStr ''-1e999''\<rparr>]\<rparr>]"

section \<open>Properties\<close>

subsection \<open>The fold over the selected records\<close>

lemma map_of_mapSet: "map_of (mapSet m k v) = (map_of m)(k \<mapsto> v)"
  by (induction m) (auto simp: fun_eq_iff)

lemma map_of_mapMutate:
  "map_of (mapMutate m k f) k' = (if k' = k then map_option f (map_of m k) else map_of m k')"
  by (induction m) auto

lemma keys_mapMutate: "map fst (mapMutate m k f) = map fst m"
  by (induction m) auto

lemma keys_mapSet_new: "k \<notin> set (map fst m) \<Longrightarrow> map fst (mapSet m k v) = map fst m @ [k]"
  by (induction m) auto

lemma processAssignment_stepNode:
  "processAssignment hw st a = (stepNode (fst st) a, snd st @ [mkEdge hw a])"
  by (simp add: processAssignment_def stepNode_def Let_def)

lemma foldl_processAssignment:
  "foldl (processAssignment hw) st as = (foldl stepNode (fst st) as, snd st @ map (mkEdge hw) as)"
  by (induction as arbitrary: st) (simp_all add: processAssignment_stepNode)

lemma foldl_processHw:
  "foldl (processHw rawData) st hws =
     (foldl stepNode (fst st) (concat (map (hwAssignments rawData) hws)),
      snd st @ concat (map (\<lambda>hw. map (mkEdge hw) (hwAssignments rawData hw)) hws))"
  by (induction hws arbitrary: st) (simp_all add: processHw_def foldl_processAssignment)

lemma keys_stepNode:
  "map fst (stepNode m a) = (if Reviewer a \<in> set (map fst m) then map fst m else map fst m @ [Reviewer a])"
  by (simp add: stepNode_def keys_mapMutate keys_mapSet_new mapHas_def)

lemma distinct_stepNode: "distinct (map fst m) \<Longrightarrow> distinct (map fst (stepNode m a))"
  by (simp add: keys_stepNode)

lemma distinct_foldl_stepNode: "distinct (map fst m) \<Longrightarrow> distinct (map fst (foldl stepNode m as))"
  by (induction as arbitrary: m) (simp_all add: distinct_stepNode)

lemma map_of_stepNode:
  "map_of (stepNode m a) k =
     (if k = Reviewer a then Some (absorb (nodeOr m k) a) else map_of m k)"
  by (auto simp: stepNode_def map_of_mapMutate map_of_mapSet mapHas_def nodeOr_def
      map_of_eq_None_iff[symmetric] simp del: map_of_eq_None_iff split: option.splits)

lemma nodeOr_stepNode:
  "nodeOr (stepNode m a) k = (if k = Reviewer a then absorb (nodeOr m k) a else nodeOr m k)"
  by (simp add: nodeOr_def map_of_stepNode)

lemma nodeOr_foldl_stepNode:
  "nodeOr (foldl stepNode m as) k = foldl absorb (nodeOr m k) (filter (\<lambda>a. Reviewer a = k) as)"
  by (induction as arbitrary: m) (simp_all add: nodeOr_stepNode)

lemma keys_stepNode_set: "fst ` set (stepNode m a) = insert (Reviewer a) (fst ` set m)"
  using arg_cong[OF keys_stepNode[of m a], of set] by (auto split: if_splits)

lemma keys_foldl_stepNode:
  "fst ` set (foldl stepNode m as) = fst ` set m \<union> Reviewer ` set as"
  by (induction as arbitrary: m) (simp_all add: keys_stepNode_set)

lemma entry_foldl_stepNode:
  assumes "(k, n) \<in> set (foldl stepNode [] as)"
  shows "n = foldl absorb (newNode k) (filter (\<lambda>a. Reviewer a = k) as)" and "k \<in> Reviewer ` set as"
proof -
  have d: "distinct (map fst (foldl stepNode [] as))"
    by (rule distinct_foldl_stepNode) simp
  with assms have "map_of (foldl stepNode [] as) k = Some n" by simp
  then have "nodeOr (foldl stepNode [] as) k = n" by (simp add: nodeOr_def)
  moreover have "nodeOr [] k = newNode k" by (simp add: nodeOr_def)
  ultimately show "n = foldl absorb (newNode k) (filter (\<lambda>a. Reviewer a = k) as)"
    using nodeOr_foldl_stepNode[of "[]" as k] by simp
  from assms have "k \<in> fst ` set (foldl stepNode [] as)" by force
  then show "k \<in> Reviewer ` set as" by (simp add: keys_foldl_stepNode)
qed

subsection \<open>The fields of an aggregated node\<close>

lemma processRound_fields:
  "feedbacks (processRound n r) = feedbacks n @ [feedbackOf r]"
  "node_id (processRound n r) = node_id n"
  "totalRounds (processRound n r) = totalRounds n"
  "meaningfulScore (processRound n r) = meaningfulScore n + (if validRound r then roundScore r else 0)"
  "relevance (labelCounts (processRound n r)) = relevance (labelCounts n) + (if validRound r then orZero (Relevance r) else 0)"
  "concreteness (labelCounts (processRound n r)) = concreteness (labelCounts n) + (if validRound r then orZero (Concreteness r) else 0)"
  "constructive (labelCounts (processRound n r)) = constructive (labelCounts n) + (if validRound r then orZero (Constructive r) else 0)"
  by (simp_all add: processRound_def Let_def validRound_def roundScore_def)

lemma foldl_processRound_fields:
  "feedbacks (foldl processRound n rs) = feedbacks n @ map feedbackOf rs"
  "node_id (foldl processRound n rs) = node_id n"
  "totalRounds (foldl processRound n rs) = totalRounds n"
  "meaningfulScore (foldl processRound n rs) = meaningfulScore n + sum_list (map roundScore (filter validRound rs))"
  "relevance (labelCounts (foldl processRound n rs)) = relevance (labelCounts n) + sum_list (map (orZero \<circ> Relevance) (filter validRound rs))"
  "concreteness (labelCounts (foldl processRound n rs)) = concreteness (labelCounts n) + sum_list (map (orZero \<circ> Concreteness) (filter validRound rs))"
  "constructive (labelCounts (foldl processRound n rs)) = constructive (labelCounts n) + sum_list (map (orZero \<circ> Constructive) (filter validRound rs))"
  by (induction rs arbitrary: n; simp add: processRound_fields)+

lemma foldl_absorb_fields:
  "feedbacks (foldl absorb n as) = feedbacks n @ map feedbackOf (concat (map roundsOf as))"
  "node_id (foldl absorb n as) = node_id n"
  "totalRounds (foldl absorb n as) = totalRounds n + length (concat (map roundsOf as))"
  "meaningfulScore (foldl absorb n as) = meaningfulScore n + sum_list (map roundScore (filter validRound (concat (map roundsOf as))))"
  "relevance (labelCounts (foldl absorb n as)) = relevance (labelCounts n) + sum_list (map (orZero \<circ> Relevance) (filter validRound (concat (map roundsOf as))))"
  "concreteness (labelCounts (foldl absorb n as)) = concreteness (labelCounts n) + sum_list (map (orZero \<circ> Concreteness) (filter validRound (concat (map roundsOf as))))"
  "constructive (labelCounts (foldl absorb n as)) = constructive (labelCounts n) + sum_list (map (orZero \<circ> Constructive) (filter validRound (concat (map roundsOf as))))"
  by (induction as arbitrary: n; simp add: absorb_def foldl_processRound_fields)+

lemma finalize_fields:
  "feedbacks (finalize b) = feedbacks b"
  "node_id (finalize b) = node_id b"
  "totalRounds (finalize b) = totalRounds b"
  "labelCounts (finalize b) = labelCounts b"
  "isFeedbackEmpty (finalize b) = list_all (\<lambda>fb. fb = []) (feedbacks b)"
  "meaningfulScore (finalize b) =
     min (if completedCount (feedbacks b) > 0 then meaningfulScore b / of_nat (completedCount (feedbacks b)) else 0) 100"
  by (simp_all add: finalize_def Let_def node.extend_def fnode.fields_def completedCount_def)

lemma completedCount_map: "completedCount (map feedbackOf rs) = length (filter validRound rs)"
  by (simp add: completedCount_def filter_map o_def validRound_def[abs_def])

lemma node_char:
  assumes "n \<in> set (nodes (processReviewerData rawData md hwNames))"
  defines "rs \<equiv> reviewerRounds rawData hwNames (node_id n)"
  shows "node_id n \<in> Reviewer ` set (selected rawData hwNames)"
    and "feedbacks n = map feedbackOf rs"
    and "totalRounds n = length rs"
    and "relevance (labelCounts n) = sum_list (map (orZero \<circ> Relevance) (filter validRound rs))"
    and "concreteness (labelCounts n) = sum_list (map (orZero \<circ> Concreteness) (filter validRound rs))"
    and "constructive (labelCounts n) = sum_list (map (orZero \<circ> Constructive) (filter validRound rs))"
    and "meaningfulScore n =
          min (if length (filter validRound rs) > 0
               then sum_list (map roundScore (filter validRound rs)) / of_nat (length (filter validRound rs))
               else 0) 100"
    and "isFeedbackEmpty n = list_all (\<lambda>r. \<not> validRound r) rs"
proof -
  from assms(1) obtain k b where kb: "(k, b) \<in> set (foldl stepNode [] (selected rawData hwNames))"
    and n: "n = finalize b"
    by (auto simp: processReviewerData_def Let_def foldl_processHw selected_def)
  from entry_foldl_stepNode[OF kb]
  have b: "b = foldl absorb (newNode k) (filter (\<lambda>a. Reviewer a = k) (selected rawData hwNames))"
    and k: "k \<in> Reviewer ` set (selected rawData hwNames)" by simp_all
  have id: "node_id n = k" by (simp add: n b finalize_fields foldl_absorb_fields newNode_def)
  have rs: "rs = concat (map roundsOf (filter (\<lambda>a. Reviewer a = k) (selected rawData hwNames)))"
    by (simp add: rs_def reviewerRounds_def id)
  show "node_id n \<in> Reviewer ` set (selected rawData hwNames)" using k id by simp
  show "feedbacks n = map feedbackOf rs" by (simp add: n b rs finalize_fields foldl_absorb_fields newNode_def)
  show "totalRounds n = length rs" by (simp add: n b rs finalize_fields foldl_absorb_fields newNode_def)
  show "relevance (labelCounts n) = sum_list (map (orZero \<circ> Relevance) (filter validRound rs))"
    by (simp add: n b rs finalize_fields foldl_absorb_fields newNode_def)
  show "concreteness (labelCounts n) = sum_list (map (orZero \<circ> Concreteness) (filter validRound rs))"
    by (simp add: n b rs finalize_fields foldl_absorb_fields newNode_def)
  show "constructive (labelCounts n) = sum_list (map (orZero \<circ> Constructive) (filter validRound rs))"
    by (simp add: n b rs finalize_fields foldl_absorb_fields newNode_def)
  have fb: "feedbacks b = map feedbackOf rs" by (simp add: b rs foldl_absorb_fields newNode_def)
  have ms: "meaningfulScore b = sum_list (map roundScore (filter validRound rs))"
    by (simp add: b rs foldl_absorb_fields newNode_def)
  show "meaningfulScore n =
          min (if length (filter validRound rs) > 0
               then sum_list (map roundScore (filter validRound rs)) / of_nat (length (filter validRound rs))
               else 0) 100"
    unfolding n finalize_fields fb ms completedCount_map ..
  show "isFeedbackEmpty n = list_all (\<lambda>r. \<not> validRound r) rs"
    by (simp add: n finalize_fields fb list_all_iff validRound_def)
qed


subsection \<open>Completion rate, node ids and score bounds: auxiliary facts\<close>

lemma completedCount_le: "completedCount fbs \<le> length fbs"
  by (simp add: completedCount_def)

lemma completionRate_bounds: "0 \<le> completionRate n \<and> completionRate n \<le> 1"
  by (simp add: completionRate_def Let_def completedCount_le)

lemma length_filter_all: "length (filter P xs) = length xs \<longleftrightarrow> list_all P xs"
proof (induction xs)
  case Nil
  then show ?case by simp
next
  case (Cons x xs)
  have "length (filter P xs) \<noteq> Suc (length xs)"
    using length_filter_le[of P xs] by arith
  with Cons show ?case by auto
qed

lemma completionRate_one:
  "completionRate n = 1 \<longleftrightarrow> feedbacks n \<noteq> [] \<and> list_all (\<lambda>fb. fb \<noteq> []) (feedbacks n)"
proof (cases "feedbacks n = []")
  case True
  then show ?thesis by (simp add: completionRate_def)
next
  case False
  then have "completionRate n = 1 \<longleftrightarrow> completedCount (feedbacks n) = length (feedbacks n)"
    by (auto simp: completionRate_def Let_def)
  also have "\<dots> \<longleftrightarrow> list_all (\<lambda>fb. fb \<noteq> []) (feedbacks n)"
    by (simp add: completedCount_def length_filter_all)
  finally show ?thesis using False by simp
qed

lemma node_id_entry:
  assumes "(k, b) \<in> set (foldl stepNode [] as)" shows "node_id (finalize b) = k"
  using entry_foldl_stepNode(1)[OF assms] by (simp add: finalize_fields foldl_absorb_fields newNode_def)

lemma node_ids: "node_id ` set (nodes (processReviewerData rawData md hwNames)) = Reviewer ` set (selected rawData hwNames)"
proof -
  let ?m = "foldl stepNode [] (selected rawData hwNames)"
  have "node_id ` set (nodes (processReviewerData rawData md hwNames)) = (\<lambda>e. node_id (finalize (snd e))) ` set ?m"
    by (simp add: processReviewerData_def Let_def foldl_processHw selected_def image_image)
  also have "\<dots> = fst ` set ?m"
    by (rule image_cong) (auto simp: node_id_entry)
  also have "\<dots> = Reviewer ` set (selected rawData hwNames)"
    by (simp add: keys_foldl_stepNode)
  finally show ?thesis .
qed

lemma sum_list_bounds:
  fixes f :: "'a \<Rightarrow> rat"
  assumes "\<forall>x \<in> set xs. 0 \<le> f x \<and> f x \<le> c"
  shows "0 \<le> sum_list (map f xs) \<and> sum_list (map f xs) \<le> c * of_nat (length xs)"
  using assms by (induction xs) (auto simp: algebra_simps)

lemma roundScore_bounds: "flags01 r \<Longrightarrow> 0 \<le> roundScore r \<and> roundScore r \<le> 100"
  by (auto simp: flags01_def roundScore_def)

lemmas eval_defs =
  processReviewerData_def hwNamesList_def processHw_def hwAssignments_def processAssignment_def
  mapHas_def newNode_def absorb_def roundsOf_def processRound_def feedbackOf_def trim_def
  isWhiteSpace_def orZero_def mkEdge_def finalize_def node.extend_def fnode.fields_def
  completionRate_def completedCount_def Let_def

subsection \<open>The concrete scenario\<close>

text \<open>
  Claim C1. On the scenario (homework key \<open>HW1\<close> with the one record of reviewer \<open>A\<close>
  and author \<open>B\<close>, a first round with feedback \<open>good\<close> and flags 1, 0, 1, a second
  round with empty feedback and flags 1, 1, 1) and the homework keys \<open>["HW1"]\<close>, the
  aggregation returns exactly one node, with id \<open>A\<close>, feedbacks \<open>["good", ""]\<close>, label
  counts 1, 0, 1 and meaningful score 70, whose completion rate is one half, and exactly
  one edge, from \<open>A\<close> to \<open>B\<close>, not completed.
\<close>

theorem scenario_node_and_edge:
  "processReviewerData scenarioData md (HwArray [''HW1'']) =
     \<lparr>nodes = [\<lparr>node_id = JStr ''A'', totalRounds = 2, meaningfulScore = 70,
                feedbacks = [''good'', ''''],
                labelCounts = \<lparr>relevance = 1, concreteness = 0, constructive = 1\<rparr>,
                isFeedbackEmpty = False\<rparr>],
      links = [\<lparr>from_id = JStr ''A'', to_id = JStr ''B'', completedAll = False,
                hwName = ''HW1''\<rparr>]\<rparr>
   \<and> map completionRate (nodes (processReviewerData scenarioData md (HwArray [''HW1'']))) = [1 / 2]"
  by (simp add: scenarioData_def scenarioRecords_def eval_defs)

lemmas vocab_defs =
  selected_def reviewerRounds_def validRound_def roundScore_def flags01_def

subsection \<open>Completion rate\<close>

text \<open>
  Claim C2, as stated, fails on a reviewer without any round: every assigned round has
  non-empty feedback (there is none), and yet the completion rate is 0, not 1. On
  \<open>idleData\<close> the aggregation returns the single node \<open>idleNode\<close>.
\<close>

theorem completion_rate_no_rounds:
  "nodes (processReviewerData idleData AllMode (HwArray [''HW1''])) = [idleNode]
   \<and> list_all validRound (reviewerRounds idleData (HwArray [''HW1'']) (node_id idleNode))
   \<and> completionRate idleNode = 0"
  by (simp add: idleData_def idleNode_def eval_defs vocab_defs)

text \<open>
  Claim C2, amended. For every node that the aggregation returns, \<open>feedbacks\<close> has one
  entry for every assigned round of the reviewer, in order, and the completion rate is
  the number of its non-empty entries over its length, and 0 when it is empty. So the
  rate is the number of assigned rounds with non-empty feedback over the number of
  assigned rounds, it lies between 0 and 1, and it is 1 if and only if the reviewer has
  at least one assigned round and every assigned round of the reviewer has non-empty
  feedback. A reviewer whose every record has an empty or non-array \<open>Round\<close> has the
  completion rate 0.
\<close>

theorem completion_rate:
  assumes "n \<in> set (nodes (processReviewerData rawData md hwNames))"
  shows "0 \<le> completionRate n \<and> completionRate n \<le> 1 \<and>
         (completionRate n = 1 \<longleftrightarrow>
            reviewerRounds rawData hwNames (node_id n) \<noteq> [] \<and>
            (\<forall>r \<in> set (reviewerRounds rawData hwNames (node_id n)). feedbackOf r \<noteq> [])) \<and>
         feedbacks n = map feedbackOf (reviewerRounds rawData hwNames (node_id n)) \<and>
         completionRate n =
           (if feedbacks n = [] then 0
            else of_nat (length (filter (\<lambda>fb. fb \<noteq> []) (feedbacks n))) / of_nat (length (feedbacks n))) \<and>
         completionRate n =
           (if reviewerRounds rawData hwNames (node_id n) = [] then 0
            else of_nat (length (filter (\<lambda>r. feedbackOf r \<noteq> []) (reviewerRounds rawData hwNames (node_id n))))
                 / of_nat (length (reviewerRounds rawData hwNames (node_id n)))) \<and>
         (list_all (\<lambda>a. Round a = NotArray \<or> Round a = IsArray [])
            (filter (\<lambda>a. Reviewer a = node_id n) (selected rawData hwNames))
          \<longrightarrow> completionRate n = 0)"
proof -
  let ?rs = "reviewerRounds rawData hwNames (node_id n)"
  have fb: "feedbacks n = map feedbackOf ?rs"
    using node_char(2)[OF assms] .
  have 1: "0 \<le> completionRate n \<and> completionRate n \<le> 1"
    by (rule completionRate_bounds)
  have 2: "completionRate n = 1 \<longleftrightarrow> ?rs \<noteq> [] \<and> (\<forall>r \<in> set ?rs. feedbackOf r \<noteq> [])"
    by (simp add: completionRate_one fb list_all_iff)
  have 3: "completionRate n =
           (if feedbacks n = [] then 0
            else of_nat (length (filter (\<lambda>fb. fb \<noteq> []) (feedbacks n))) / of_nat (length (feedbacks n)))"
    by (simp add: completionRate_def completedCount_def Let_def)
  have 4: "completionRate n =
           (if ?rs = [] then 0
            else of_nat (length (filter (\<lambda>r. feedbackOf r \<noteq> []) ?rs)) / of_nat (length ?rs))"
    by (simp add: 3 fb filter_map o_def)
  have 5: "completionRate n = 0"
    if "list_all (\<lambda>a. Round a = NotArray \<or> Round a = IsArray [])
          (filter (\<lambda>a. Reviewer a = node_id n) (selected rawData hwNames))"
  proof -
    from that have "?rs = []"
      by (auto simp: reviewerRounds_def roundsOf_def list_all_iff)
    then show ?thesis by (simp add: 4)
  qed
  from 1 2 fb 3 4 5 show ?thesis by blast
qed

text \<open>
  The theorem at the node of the scenario, whose second round has empty feedback and
  whose completion rate is one half, and at the node of \<open>idleData\<close>, whose two records
  have an empty and a non-array \<open>Round\<close> and whose completion rate is 0.
\<close>

theorem completion_rate_witness:
  "scenarioNode \<in> set (nodes (processReviewerData scenarioData AllMode (HwArray [''HW1'']))) \<and>
   0 \<le> completionRate scenarioNode \<and> completionRate scenarioNode \<le> 1 \<and>
   (completionRate scenarioNode = 1 \<longleftrightarrow>
      reviewerRounds scenarioData (HwArray [''HW1'']) (node_id scenarioNode) \<noteq> [] \<and>
      (\<forall>r \<in> set (reviewerRounds scenarioData (HwArray [''HW1'']) (node_id scenarioNode)).
          feedbackOf r \<noteq> [])) \<and>
   completionRate scenarioNode = 1 / 2 \<and>
   idleNode \<in> set (nodes (processReviewerData idleData AllMode (HwArray [''HW1'']))) \<and>
   list_all (\<lambda>a. Round a = NotArray \<or> Round a = IsArray [])
     (filter (\<lambda>a. Reviewer a = node_id idleNode) (selected idleData (HwArray [''HW1'']))) \<and>
   completionRate idleNode = 0"
proof -
  have h: "scenarioNode \<in> set (nodes (processReviewerData scenarioData AllMode (HwArray [''HW1''])))"
    by (simp add: scenarioData_def scenarioRecords_def scenarioNode_def eval_defs)
  have r: "reviewerRounds scenarioData (HwArray [''HW1'']) (node_id scenarioNode) \<noteq> []"
    by (simp add: scenarioData_def scenarioRecords_def scenarioNode_def eval_defs vocab_defs)
  have f: "length (filter (\<lambda>fb. fb \<noteq> []) (feedbacks scenarioNode)) = 1"
      "length (feedbacks scenarioNode) = 2"
    by (simp_all add: scenarioNode_def)
  have i: "idleNode \<in> set (nodes (processReviewerData idleData AllMode (HwArray [''HW1''])))"
    by (simp add: idleData_def idleNode_def eval_defs)
  have e: "list_all (\<lambda>a. Round a = NotArray \<or> Round a = IsArray [])
     (filter (\<lambda>a. Reviewer a = node_id idleNode) (selected idleData (HwArray [''HW1''])))"
    by (simp add: idleData_def idleNode_def selected_def hwNamesList_def hwAssignments_def)
  note s = completion_rate[OF h]
  note d = completion_rate[OF i]
  from s have s1: "0 \<le> completionRate scenarioNode \<and> completionRate scenarioNode \<le> 1 \<and>
     (completionRate scenarioNode = 1 \<longleftrightarrow>
        reviewerRounds scenarioData (HwArray [''HW1'']) (node_id scenarioNode) \<noteq> [] \<and>
        (\<forall>r \<in> set (reviewerRounds scenarioData (HwArray [''HW1'']) (node_id scenarioNode)).
            feedbackOf r \<noteq> []))"
    by (intro conjI) (elim conjE, assumption)+
  from s have "completionRate scenarioNode =
     (if feedbacks scenarioNode = [] then 0
      else of_nat (length (filter (\<lambda>fb. fb \<noteq> []) (feedbacks scenarioNode)))
           / of_nat (length (feedbacks scenarioNode)))"
    by (elim conjE)
  with f have s2: "completionRate scenarioNode = 1 / 2"
    by (simp add: scenarioNode_def)
  from d e have z: "completionRate idleNode = 0"
    by (elim conjE impE)
  from h s1 s2 i e z show ?thesis
    by (intro conjI) (elim conjE, assumption)+
qed

subsection \<open>Meaningful score\<close>

text \<open>
  Claim C3. When the rounds of the selected records carry 0/1 label flags, every node
  that the aggregation returns has a meaningful score between 0 and 100; the score is
  the sum of the weighted round scores (relevance times 30 plus concreteness times 30
  plus constructive times 40) over the reviewer's rounds with non-empty feedback,
  divided by the number of these rounds and capped at 100, and it is 0 when the
  reviewer has no round with non-empty feedback.
\<close>

theorem meaningful_score:
  assumes "\<forall>a \<in> set (selected rawData hwNames). \<forall>r \<in> set (roundsOf a). flags01 r"
    and "n \<in> set (nodes (processReviewerData rawData md hwNames))"
  shows "0 \<le> meaningfulScore n \<and> meaningfulScore n \<le> 100 \<and>
         meaningfulScore n =
           (let valid = filter validRound (reviewerRounds rawData hwNames (node_id n))
            in if valid = [] then 0
               else min (sum_list (map roundScore valid) / of_nat (length valid)) 100)"
proof -
  let ?valid = "filter validRound (reviewerRounds rawData hwNames (node_id n))"
  have "\<forall>r \<in> set ?valid. 0 \<le> roundScore r \<and> roundScore r \<le> 100"
    using assms(1) by (auto simp: reviewerRounds_def intro!: roundScore_bounds)
  from sum_list_bounds[OF this]
  have s: "0 \<le> sum_list (map roundScore ?valid)"
    "sum_list (map roundScore ?valid) \<le> 100 * of_nat (length ?valid)"
    by auto
  have ms: "meaningfulScore n =
      min (if length ?valid > 0 then sum_list (map roundScore ?valid) / of_nat (length ?valid) else 0) 100"
    by (rule node_char(7)[OF assms(2)])
  show ?thesis
  proof (cases "?valid = []")
    case True
    then show ?thesis using ms by simp
  next
    case False
    then have pos: "0 < (of_nat (length ?valid) :: rat)" by simp
    have "0 \<le> sum_list (map roundScore ?valid) / of_nat (length ?valid)"
      using s(1) pos by simp
    moreover have "sum_list (map roundScore ?valid) / of_nat (length ?valid) \<le> 100"
      using s(2) pos by (simp add: pos_divide_le_eq)
    ultimately show ?thesis using ms False by (simp add: Let_def)
  qed
qed

text \<open>The theorem on the scenario: the flags are 0/1, and the score of the node is 70.\<close>

theorem meaningful_score_witness:
  "list_all (\<lambda>a. list_all flags01 (roundsOf a)) (selected scenarioData (HwArray [''HW1''])) \<and>
   scenarioNode \<in> set (nodes (processReviewerData scenarioData AllMode (HwArray [''HW1'']))) \<and>
   0 \<le> meaningfulScore scenarioNode \<and> meaningfulScore scenarioNode \<le> 100 \<and>
   meaningfulScore scenarioNode =
     (let valid = filter validRound
                    (reviewerRounds scenarioData (HwArray [''HW1'']) (node_id scenarioNode))
      in if valid = [] then 0
         else min (sum_list (map roundScore valid) / of_nat (length valid)) 100) \<and>
   meaningfulScore scenarioNode = 70"
proof -
  have f: "list_all (\<lambda>a. list_all flags01 (roundsOf a)) (selected scenarioData (HwArray [''HW1'']))"
    by (simp add: scenarioData_def scenarioRecords_def eval_defs vocab_defs)
  then have f': "\<forall>a \<in> set (selected scenarioData (HwArray [''HW1''])). \<forall>r \<in> set (roundsOf a). flags01 r"
    by (simp add: list_all_iff)
  have h: "scenarioNode \<in> set (nodes (processReviewerData scenarioData AllMode (HwArray [''HW1''])))"
    by (simp add: scenarioData_def scenarioRecords_def scenarioNode_def eval_defs)
  have v: "meaningfulScore scenarioNode = 70" by (simp add: scenarioNode_def)
  from meaningful_score[OF f' h] f h v show ?thesis by simp
qed

subsection \<open>Raising one label flag\<close>

lemma sum_list_update:
  fixes f :: "'a \<Rightarrow> rat"
  shows "j < length xs \<Longrightarrow> sum_list (map f (xs[j := y])) = sum_list (map f xs) + (f y - f (xs ! j))"
proof (induction xs arbitrary: j)
  case Nil
  then show ?case by simp
next
  case (Cons x xs)
  then show ?case by (cases j) simp_all
qed

lemma sum_list_count:
  fixes G :: "'a \<Rightarrow> rat"
  shows "sum_list (map (\<lambda>h. G h + (if h = k then d else 0)) hs) =
         sum_list (map G hs) + of_nat (count_list hs k) * d"
  by (induction hs) (simp_all add: algebra_simps)

lemma sum_rounds_filter:
  fixes f :: "round_rec \<Rightarrow> rat"
  shows "sum_list (map f (concat (map roundsOf (filter P as)))) =
         sum_list (map (\<lambda>a. if P a then sum_list (map f (roundsOf a)) else 0) as)"
  by (induction as) simp_all

lemma sum_reviewerRounds:
  fixes f :: "round_rec \<Rightarrow> rat"
  shows "sum_list (map f (reviewerRounds rawData hwNames k)) =
         sum_list (map (\<lambda>h. sum_list (map (\<lambda>a. if Reviewer a = k then sum_list (map f (roundsOf a)) else 0)
                                         (hwAssignments rawData h))) (hwNamesList hwNames))"
proof -
  have "sum_list (map f (concat (map roundsOf (filter P (concat (map (hwAssignments rawData) hs)))))) =
        sum_list (map (\<lambda>h. sum_list (map (\<lambda>a. if P a then sum_list (map f (roundsOf a)) else 0)
                                         (hwAssignments rawData h))) hs)" for P hs
    by (induction hs) (simp_all add: sum_rounds_filter)
  then show ?thesis by (simp add: reviewerRounds_def selected_def)
qed

lemma hwAssignments_raiseAt:
  assumes "rawData hw = Some as"
  shows "hwAssignments (raiseAt rawData hw i j L) h =
           (if h = hw
            then as[i := (as ! i)\<lparr>Round := IsArray ((roundsOf (as ! i))[j := raiseFlag L (roundsOf (as ! i) ! j)])\<rparr>]
            else hwAssignments rawData h)"
  using assms by (simp add: hwAssignments_def raiseAt_def)

lemma sum_raiseAt:
  fixes f :: "round_rec \<Rightarrow> rat"
  assumes raw: "rawData hw = Some as" and i: "i < length as" and j: "j < length (roundsOf (as ! i))"
  shows "sum_list (map f (reviewerRounds (raiseAt rawData hw i j L) hwNames (Reviewer (as ! i)))) =
         sum_list (map f (reviewerRounds rawData hwNames (Reviewer (as ! i))))
         + of_nat (count_list (hwNamesList hwNames) hw)
           * (f (raiseFlag L (roundsOf (as ! i) ! j)) - f (roundsOf (as ! i) ! j))"
proof -
  let ?a = "as ! i" and ?k = "Reviewer (as ! i)"
  let ?rs = "roundsOf ?a"
  let ?a' = "?a\<lparr>Round := IsArray (?rs[j := raiseFlag L (?rs ! j)])\<rparr>"
  let ?d = "f (raiseFlag L (?rs ! j)) - f (?rs ! j)"
  let ?g = "\<lambda>a. if Reviewer a = ?k then sum_list (map f (roundsOf a)) else 0"
  let ?G = "\<lambda>h. sum_list (map ?g (hwAssignments rawData h))"
  have a': "?g ?a' = ?g ?a + ?d"
    using sum_list_update[OF j, of f] by (simp add: roundsOf_def)
  have "sum_list (map ?g (as[i := ?a'])) = sum_list (map ?g as) + (?g ?a' - ?g ?a)"
    by (rule sum_list_update[OF i])
  then have as': "sum_list (map ?g (as[i := ?a'])) = sum_list (map ?g as) + ?d"
    using a' by simp
  have G': "sum_list (map ?g (hwAssignments (raiseAt rawData hw i j L) h)) = ?G h + (if h = hw then ?d else 0)" for h
    using as' raw hwAssignments_raiseAt[of rawData hw as i j L h]
    by (simp add: hwAssignments_def)
  show ?thesis
    unfolding sum_reviewerRounds G' by (rule sum_list_count)
qed


lemma raiseFlag_feedback: "feedbackOf (raiseFlag L r) = feedbackOf r"
  by (cases L) (simp_all add: raiseFlag_def feedbackOf_def)

lemma raiseFlag_valid: "validRound (raiseFlag L r) = validRound r"
  by (simp add: validRound_def raiseFlag_feedback)

lemma raiseFlag_flag:
  "orZero (flagOf L' (raiseFlag L r)) = (if L' = L then 1 else orZero (flagOf L' r))"
  by (cases L; cases L') (simp_all add: raiseFlag_def flagOf_def orZero_def)

lemma roundScore_flags:
  "roundScore r = orZero (flagOf RelevanceLabel r) * 30 + orZero (flagOf ConcretenessLabel r) * 30
                  + orZero (flagOf ConstructiveLabel r) * 40"
  by (simp add: roundScore_def flagOf_def)

lemma raiseFlag_score:
  "orZero (flagOf L r) = 0 \<Longrightarrow> roundScore (raiseFlag L r) = roundScore r + weight L"
  by (cases L) (simp_all add: roundScore_flags raiseFlag_flag weight_def)

lemma sum_list_filter_if:
  fixes f :: "'a \<Rightarrow> rat"
  shows "sum_list (map f (filter P xs)) = sum_list (map (\<lambda>x. if P x then f x else 0) xs)"
  by (induction xs) simp_all

lemma length_filter_sum:
  "(of_nat (length (filter P xs)) :: rat) = sum_list (map (\<lambda>x. if P x then 1 else 0) xs)"
  by (induction xs) simp_all

lemma node_sums:
  assumes "n \<in> set (nodes (processReviewerData rawData md hwNames))"
  defines "R \<equiv> reviewerRounds rawData hwNames (node_id n)"
  shows "labelCount L (labelCounts n) = sum_list (map (\<lambda>r. if validRound r then orZero (flagOf L r) else 0) R)"
    and "of_nat (completedCount (feedbacks n)) = sum_list (map (\<lambda>r. if validRound r then (1::rat) else 0) R)"
    and "meaningfulScore n =
          min (if completedCount (feedbacks n) > 0
               then sum_list (map (\<lambda>r. if validRound r then roundScore r else 0) R)
                    / of_nat (completedCount (feedbacks n))
               else 0) 100"
proof -
  note nc = node_char[OF assms(1), folded R_def]
  show "labelCount L (labelCounts n) = sum_list (map (\<lambda>r. if validRound r then orZero (flagOf L r) else 0) R)"
    by (cases L) (simp_all add: labelCount_def flagOf_def nc sum_list_filter_if o_def cong: if_cong)
  show "of_nat (completedCount (feedbacks n)) = sum_list (map (\<lambda>r. if validRound r then (1::rat) else 0) R)"
    by (simp add: nc(2) completedCount_map length_filter_sum)
  show "meaningfulScore n =
          min (if completedCount (feedbacks n) > 0
               then sum_list (map (\<lambda>r. if validRound r then roundScore r else 0) R)
                    / of_nat (completedCount (feedbacks n))
               else 0) 100"
    by (simp add: nc(7) nc(2) completedCount_map sum_list_filter_if)
qed

lemma score_label:
  "score (labelMode L) n =
     (if completedCount (feedbacks n) > 0 then labelCount L (labelCounts n) / of_nat (completedCount (feedbacks n)) else 0)"
  by (cases L) (simp_all add: score_def labelMode_def labelCount_def Let_def)

lemma score_all:
  "score AllMode n =
     (if completedCount (feedbacks n) > 0
      then (labelCount RelevanceLabel (labelCounts n) + labelCount ConcretenessLabel (labelCounts n)
            + labelCount ConstructiveLabel (labelCounts n)) / of_nat (completedCount (feedbacks n)) / 3
      else 0)"
  by (simp add: score_def labelCount_def Let_def add_divide_distrib)

lemma nodeFor_Some:
  "nodeFor g k = Some n \<Longrightarrow> n \<in> set (nodes g) \<and> node_id n = k"
  by (auto simp: nodeFor_def find_Some_iff)

lemma nodeFor_exists:
  assumes "k \<in> Reviewer ` set (selected rawData hwNames)"
  shows "\<exists>n. nodeFor (processReviewerData rawData md hwNames) k = Some n"
proof -
  from assms have "k \<in> node_id ` set (nodes (processReviewerData rawData md hwNames))"
    by (simp add: node_ids)
  then show ?thesis
    by (cases "nodeFor (processReviewerData rawData md hwNames) k") (auto simp: nodeFor_def find_None_iff)
qed

lemma selected_memI:
  "h \<in> set (hwNamesList hwNames) \<Longrightarrow> a \<in> set (hwAssignments rawData h) \<Longrightarrow>
   a \<in> set (selected rawData hwNames)"
  by (auto simp: selected_def)

text \<open>
  Claim C4. Take a selected homework key, one of its records and one of the record's
  rounds, with non-empty feedback and with the flag of label \<open>L\<close> equal to 0, and set
  that flag to 1, all else fixed. Then the reviewer of the record has a node before and
  after, the score of the node in the mode of \<open>L\<close> and its score in the mode \<open>all\<close>
  strictly increase, and its meaningful score does not decrease.
\<close>

theorem label_monotone:
  assumes hw: "hw \<in> set (hwNamesList hwNames)"
    and raw: "rawData hw = Some as"
    and i: "i < length as"
    and j: "j < length (roundsOf (as ! i))"
    and valid: "validRound (roundsOf (as ! i) ! j)"
    and zero: "orZero (flagOf L (roundsOf (as ! i) ! j)) = 0"
  shows "\<exists>n n'. nodeFor (processReviewerData rawData md hwNames) (Reviewer (as ! i)) = Some n \<and>
                nodeFor (processReviewerData (raiseAt rawData hw i j L) md hwNames) (Reviewer (as ! i)) = Some n' \<and>
                score (labelMode L) n < score (labelMode L) n' \<and>
                score AllMode n < score AllMode n' \<and>
                meaningfulScore n \<le> meaningfulScore n'"
proof -
  let ?a = "as ! i" and ?k = "Reviewer (as ! i)"
  let ?r = "roundsOf ?a ! j"
  let ?raw' = "raiseAt rawData hw i j L"
  let ?a' = "?a\<lparr>Round := IsArray ((roundsOf ?a)[j := raiseFlag L ?r])\<rparr>"
  let ?c = "of_nat (count_list (hwNamesList hwNames) hw) :: rat"
  have c: "1 \<le> ?c"
    using hw count_list_0_iff[of "hwNamesList hwNames" hw]
    by (cases "count_list (hwNamesList hwNames) hw") auto
  have as: "hwAssignments rawData hw = as" by (simp add: hwAssignments_def raw)
  have a_in: "?a \<in> set (selected rawData hwNames)"
    using as nth_mem[OF i] by (intro selected_memI[OF hw]) simp
  have as': "hwAssignments ?raw' hw = as[i := ?a']"
    using hwAssignments_raiseAt[of rawData hw as i j L hw] raw by simp
  have "?a' \<in> set (as[i := ?a'])" using i by (simp add: set_update_memI)
  then have a'_in: "?a' \<in> set (selected ?raw' hwNames)"
    using as' by (intro selected_memI[OF hw]) simp
  have r_in: "?r \<in> set (reviewerRounds rawData hwNames ?k)"
    using a_in j by (auto simp: reviewerRounds_def)
  obtain n where n: "nodeFor (processReviewerData rawData md hwNames) ?k = Some n"
    using nodeFor_exists[of ?k rawData hwNames md] a_in by blast
  have "Reviewer ?a' = ?k" by simp
  then have "?k \<in> Reviewer ` set (selected ?raw' hwNames)"
    using a'_in by (metis imageI)
  then obtain n' where n': "nodeFor (processReviewerData ?raw' md hwNames) ?k = Some n'"
    using nodeFor_exists[of ?k ?raw' hwNames md] by blast
  from nodeFor_Some[OF n] have nm: "n \<in> set (nodes (processReviewerData rawData md hwNames))"
    and nk: "node_id n = ?k" by simp_all
  from nodeFor_Some[OF n'] have nm': "n' \<in> set (nodes (processReviewerData ?raw' md hwNames))"
    and nk': "node_id n' = ?k" by simp_all
  note s = node_sums[OF nm, unfolded nk] and s' = node_sums[OF nm', unfolded nk']
  note d = sum_raiseAt[where rawData=rawData and hw=hw and as=as and i=i and j=j and L=L
      and hwNames=hwNames, OF raw i j]
  let ?vc = "completedCount (feedbacks n)"
  have "(of_nat (completedCount (feedbacks n')) :: rat) = of_nat ?vc"
    unfolding s(2) s'(2) d by (simp add: raiseFlag_valid)
  then have vc': "completedCount (feedbacks n') = ?vc" by simp
  have "filter validRound (reviewerRounds rawData hwNames ?k) \<noteq> []"
    using r_in valid by (auto simp: filter_empty_conv)
  then have pos: "0 < ?vc"
    using node_char(2)[OF nm, unfolded nk] by (simp add: completedCount_map)
  then have rpos: "0 < (of_nat ?vc :: rat)" by simp
  have lc: "labelCount L' (labelCounts n') = labelCount L' (labelCounts n) + (if L' = L then ?c else 0)" for L'
    unfolding s(1) s'(1) d using valid zero by (simp add: raiseFlag_valid raiseFlag_flag)
  have 1: "score (labelMode L) n < score (labelMode L) n'"
    using pos rpos c by (simp add: score_label vc' lc divide_strict_right_mono)
  have "labelCount RelevanceLabel (labelCounts n') + labelCount ConcretenessLabel (labelCounts n')
            + labelCount ConstructiveLabel (labelCounts n') =
        labelCount RelevanceLabel (labelCounts n) + labelCount ConcretenessLabel (labelCounts n)
            + labelCount ConstructiveLabel (labelCounts n) + ?c"
    by (cases L) (simp_all add: lc)
  then have 2: "score AllMode n < score AllMode n'"
    using pos rpos c by (simp add: score_all vc' divide_strict_right_mono)
  have w: "0 \<le> weight L" by (cases L) (simp_all add: weight_def)
  have "sum_list (map (\<lambda>r. if validRound r then roundScore r else 0) (reviewerRounds ?raw' hwNames ?k)) =
        sum_list (map (\<lambda>r. if validRound r then roundScore r else 0) (reviewerRounds rawData hwNames ?k))
        + ?c * weight L"
    unfolding d using valid zero by (simp add: raiseFlag_valid raiseFlag_score)
  moreover have "0 \<le> ?c * weight L" using c w by simp
  ultimately have 3: "meaningfulScore n \<le> meaningfulScore n'"
    unfolding s(3) s'(3) vc' using pos rpos
    by (simp add: divide_right_mono min.coboundedI1)
  from n n' 1 2 3 show ?thesis by blast
qed

text \<open>The theorem on the scenario, for the concreteness flag of the first round, which is
  0 there and whose round has the feedback \<open>good\<close>.\<close>

theorem label_monotone_witness:
  "''HW1'' \<in> set (hwNamesList (HwArray [''HW1''])) \<and>
   scenarioData ''HW1'' = Some scenarioRecords \<and>
   0 < length scenarioRecords \<and>
   0 < length (roundsOf (scenarioRecords ! 0)) \<and>
   validRound (roundsOf (scenarioRecords ! 0) ! 0) \<and>
   orZero (flagOf ConcretenessLabel (roundsOf (scenarioRecords ! 0) ! 0)) = 0 \<and>
   (\<exists>n n'. nodeFor (processReviewerData scenarioData AllMode (HwArray [''HW1'']))
               (Reviewer (scenarioRecords ! 0)) = Some n \<and>
            nodeFor (processReviewerData (raiseAt scenarioData ''HW1'' 0 0 ConcretenessLabel) AllMode
                       (HwArray [''HW1'']))
               (Reviewer (scenarioRecords ! 0)) = Some n' \<and>
            score (labelMode ConcretenessLabel) n < score (labelMode ConcretenessLabel) n' \<and>
            score AllMode n < score AllMode n' \<and>
            meaningfulScore n \<le> meaningfulScore n')"
proof -
  have h1: "''HW1'' \<in> set (hwNamesList (HwArray [''HW1'']))" by (simp add: hwNamesList_def)
  have h2: "scenarioData ''HW1'' = Some scenarioRecords" by (simp add: scenarioData_def)
  have h3: "0 < length scenarioRecords" by (simp add: scenarioRecords_def)
  have h4: "0 < length (roundsOf (scenarioRecords ! 0))"
    by (simp add: scenarioRecords_def roundsOf_def)
  have h5: "validRound (roundsOf (scenarioRecords ! 0) ! 0)"
    by (simp add: scenarioRecords_def roundsOf_def validRound_def feedbackOf_def trim_def
        isWhiteSpace_def)
  have h6: "orZero (flagOf ConcretenessLabel (roundsOf (scenarioRecords ! 0) ! 0)) = 0"
    by (simp add: scenarioRecords_def roundsOf_def flagOf_def orZero_def)
  from label_monotone[where hw="''HW1''" and hwNames="HwArray [''HW1'']" and rawData=scenarioData
      and as=scenarioRecords and i=0 and j=0 and L=ConcretenessLabel and md=AllMode,
      OF h1 h2 h3 h4 h5 h6] h1 h2 h3 h4 h5 h6
  show ?thesis by blast
qed

subsection \<open>Node size\<close>

text \<open>
  Claim C9. In the styling of every mode, the size handed to the graph library for a
  node is 15 plus 35 times the node's completion rate, so it lies between 15 and 50; it
  does not change with the mode, the label counts or the meaningful score, which decide
  the colour only.
\<close>

theorem node_size:
  "vis_value (visNode md n) = 15 + completionRate n * 35
   \<and> 15 \<le> vis_value (visNode md n) \<and> vis_value (visNode md n) \<le> 50
   \<and> vis_value (visNode md' (n\<lparr>labelCounts := lc, meaningfulScore := ms\<rparr>)) = vis_value (visNode md n)
   \<and> map vis_value (visNodes rawData md hwNames) =
       map (\<lambda>n. 15 + completionRate n * 35) (nodes (processReviewerData rawData md hwNames))"
proof -
  have "0 \<le> completionRate n" "completionRate n \<le> 1" using completionRate_bounds by auto
  then show ?thesis
    by (simp add: visNode_def visNodes_def sizeScale_def completionRate_def o_def)
qed

subsection \<open>Edges\<close>

text \<open>
  Claim C10. The aggregation appends exactly one edge for every record of every
  selected homework key, in order: from the record's reviewer to its author, with
  \<open>completedAll\<close> true exactly when \<open>Round\<close> is an array of at least three rounds (so
  false for a \<open>Round\<close> that is missing, empty or not an array) and with the homework
  key. Hence the number of edges is the number of records of the selected keys, and
  every record's reviewer has a node.
\<close>

theorem one_edge_per_record:
  "links (processReviewerData rawData md hwNames) =
     concat (map (\<lambda>hw. map (\<lambda>a. \<lparr>from_id = Reviewer a, to_id = Author a,
                                   completedAll = (case Round a of IsArray rs \<Rightarrow> length rs \<ge> 3
                                                   | NotArray \<Rightarrow> False),
                                   hwName = hw\<rparr>) (hwAssignments rawData hw)) (hwNamesList hwNames))
   \<and> length (links (processReviewerData rawData md hwNames)) =
       sum_list (map (\<lambda>hw. length (hwAssignments rawData hw)) (hwNamesList hwNames))
   \<and> node_id ` set (nodes (processReviewerData rawData md hwNames)) =
       Reviewer ` set (concat (map (hwAssignments rawData) (hwNamesList hwNames)))"
proof -
  have e: "mkEdge hw = (\<lambda>a. \<lparr>from_id = Reviewer a, to_id = Author a,
                          completedAll = (case Round a of IsArray rs \<Rightarrow> length rs \<ge> 3
                                          | NotArray \<Rightarrow> False),
                          hwName = hw\<rparr>)" for hw
    by (simp add: fun_eq_iff mkEdge_def roundsOf_def split: jsrounds.splits)
  have l: "links (processReviewerData rawData md hwNames) =
      concat (map (\<lambda>hw. map (mkEdge hw) (hwAssignments rawData hw)) (hwNamesList hwNames))"
    by (simp add: processReviewerData_def Let_def foldl_processHw)
  have "length (links (processReviewerData rawData md hwNames)) =
       sum_list (map (\<lambda>hw. length (hwAssignments rawData hw)) (hwNamesList hwNames))"
    unfolding l by (simp add: length_concat o_def)
  moreover note node_ids[of rawData md hwNames, unfolded selected_def]
  ultimately show ?thesis using l by (simp add: e)
qed

subsection \<open>Label frequency per homework\<close>

lemma init_stats:
  "foldl (\<lambda>m hwName. m(hwName \<mapsto> z)) m0 ks k = (if k \<in> set ks then Some z else m0 k)"
  by (induction ks arbitrary: m0) auto

lemma countRound_fields:
  "total (countRound st r) = total st + (if allDefined r then 1 else 0)"
  "relevance_n (countRound st r) = relevance_n st + (if allDefined r \<and> Relevance r = FNum 1 then 1 else 0)"
  "concreteness_n (countRound st r) = concreteness_n st + (if allDefined r \<and> Concreteness r = FNum 1 then 1 else 0)"
  "constructive_n (countRound st r) = constructive_n st + (if allDefined r \<and> Constructive r = FNum 1 then 1 else 0)"
  by (simp_all add: countRound_def allDefined_def)

lemma foldl_countRound_fields:
  "total (foldl countRound st rs) = total st + length (filter allDefined rs)"
  "relevance_n (foldl countRound st rs) = relevance_n st + length (filter (\<lambda>r. Relevance r = FNum 1) (filter allDefined rs))"
  "concreteness_n (foldl countRound st rs) = concreteness_n st + length (filter (\<lambda>r. Concreteness r = FNum 1) (filter allDefined rs))"
  "constructive_n (foldl countRound st rs) = constructive_n st + length (filter (\<lambda>r. Constructive r = FNum 1) (filter allDefined rs))"
  by (induction rs arbitrary: st; simp add: countRound_fields)+

lemma countStudent_roundsOf: "countStudent st student = foldl countRound st (roundsOf student)"
  by (simp add: countStudent_def roundsOf_def split: jsrounds.splits)

lemma foldl_countStudent_fields:
  "total (foldl countStudent st as) = total st + length (filter allDefined (concat (map roundsOf as)))"
  "relevance_n (foldl countStudent st as) = relevance_n st + length (filter (\<lambda>r. Relevance r = FNum 1) (filter allDefined (concat (map roundsOf as))))"
  "concreteness_n (foldl countStudent st as) = concreteness_n st + length (filter (\<lambda>r. Concreteness r = FNum 1) (filter allDefined (concat (map roundsOf as))))"
  "constructive_n (foldl countStudent st as) = constructive_n st + length (filter (\<lambda>r. Constructive r = FNum 1) (filter allDefined (concat (map roundsOf as))))"
  by (induction as arbitrary: st; simp add: countStudent_roundsOf foldl_countRound_fields)+

lemma foldl_countHw:
  "distinct (map fst data) \<Longrightarrow>
   foldl countHw m data k =
     (case map_of data k of
        None \<Rightarrow> m k
      | Some recs \<Rightarrow> map_option (\<lambda>st. foldl countStudent st recs) (m k))"
proof (induction data arbitrary: m)
  case Nil
  then show ?case by simp
next
  case (Cons e data)
  obtain k1 r1 where e: "e = (k1, r1)" by (cases e)
  from Cons.prems have nk: "map_of data k1 = None" and d: "distinct (map fst data)"
    by (auto simp: e map_of_eq_None_iff)
  show ?case
    using Cons.IH[OF d, of "countHw m e"] nk
    by (auto simp: e countHw_def split: option.splits)
qed

lemmas freq_defs =
  calculateHwLabelFrequency_def countHw_def countStudent_def countRound_def percentage_def Let_def

text \<open>
  Claim C5, as stated, fails in its concrete part. On the frequency scenario the round
  with the three flags equal to 1 is the only round counted, and it counts for each of
  the three labels: the result is total 1 and 100 percent for relevance, concreteness
  and constructive, not 100, 0 and 0.
\<close>

theorem label_frequency_scenario:
  "calculateHwLabelFrequency freqData ''HW1'' =
     Some \<lparr>relevance_pct = 100, concreteness_pct = 100, constructive_pct = 100, total_pct = 1\<rparr>
   \<and> calculateHwLabelFrequency freqData ''HW1'' \<noteq>
     Some \<lparr>relevance_pct = 100, concreteness_pct = 0, constructive_pct = 0, total_pct = 1\<rparr>"
  by (simp add: freqData_def freqRecords_def freq_defs)

text \<open>
  Claim C5, amended. \<open>calculateHwLabelFrequency\<close> counts a round into the total of its
  homework key exactly when \<open>Relevance\<close>, \<open>Concreteness\<close> and \<open>Constructive\<close> are all
  defined, and into the count of a label when moreover that flag is 1; the percentages
  are the label counts over the total times 100, and the four fields are 0 when the
  total is 0. (On the scenario: total 1 and 100 percent for each label.)
\<close>

theorem label_frequency:
  assumes "distinct (map fst data)" and "(hw, hwData) \<in> set data"
  shows "calculateHwLabelFrequency data hw =
           Some (let counted = filter allDefined (concat (map roundsOf hwData));
                     t = length counted
                 in if t > 0 then
                      \<lparr>relevance_pct = of_nat (length (filter (\<lambda>r. Relevance r = FNum 1) counted)) / of_nat t * 100,
                       concreteness_pct = of_nat (length (filter (\<lambda>r. Concreteness r = FNum 1) counted)) / of_nat t * 100,
                       constructive_pct = of_nat (length (filter (\<lambda>r. Constructive r = FNum 1) counted)) / of_nat t * 100,
                       total_pct = t\<rparr>
                    else \<lparr>relevance_pct = 0, concreteness_pct = 0, constructive_pct = 0, total_pct = 0\<rparr>)"
proof -
  from assms have mo: "map_of data hw = Some hwData" by simp
  from assms(2) have k: "hw \<in> set (map fst data)" by force
  let ?z = "\<lparr>total = 0, relevance_n = 0, concreteness_n = 0, constructive_n = 0\<rparr>"
  have "calculateHwLabelFrequency data hw = Some (percentage (foldl countStudent ?z hwData))"
    using k by (simp add: calculateHwLabelFrequency_def Let_def foldl_countHw[OF assms(1)] mo init_stats)
  also have "percentage (foldl countStudent ?z hwData) =
     (let counted = filter allDefined (concat (map roundsOf hwData));
                     t = length counted
                 in if t > 0 then
                      \<lparr>relevance_pct = of_nat (length (filter (\<lambda>r. Relevance r = FNum 1) counted)) / of_nat t * 100,
                       concreteness_pct = of_nat (length (filter (\<lambda>r. Concreteness r = FNum 1) counted)) / of_nat t * 100,
                       constructive_pct = of_nat (length (filter (\<lambda>r. Constructive r = FNum 1) counted)) / of_nat t * 100,
                       total_pct = t\<rparr>
                    else \<lparr>relevance_pct = 0, concreteness_pct = 0, constructive_pct = 0, total_pct = 0\<rparr>)"
    by (simp add: percentage_def foldl_countStudent_fields Let_def)
  finally show ?thesis .
qed

text \<open>The theorem on the frequency scenario.\<close>

theorem label_frequency_witness:
  "distinct (map fst freqData) \<and> (''HW1'', freqRecords) \<in> set freqData \<and>
   calculateHwLabelFrequency freqData ''HW1'' =
     Some \<lparr>relevance_pct = 100, concreteness_pct = 100, constructive_pct = 100, total_pct = 1\<rparr>"
proof -
  have d: "distinct (map fst freqData)" by (simp add: freqData_def)
  have m: "(''HW1'', freqRecords) \<in> set freqData" by (simp add: freqData_def)
  from label_frequency[OF d m] d m show ?thesis
    by (simp add: freqRecords_def roundsOf_def allDefined_def)
qed

subsection \<open>Label averages per reviewer\<close>

text \<open>Numbers of a small size do not overflow.\<close>

lemma maxDouble_ge: "2 ^ 1023 \<le> maxDouble"
proof -
  have "(2::rat) ^ 970 \<le> 2 ^ 1023" by (rule power_increasing) simp_all
  moreover have "(2::rat) ^ 1024 = 2 * 2 ^ 1023"
    using power_Suc[of "2::rat" 1023] by simp
  ultimately show ?thesis by (simp add: maxDouble_def)
qed

lemma maxDouble_gt: "1000 < maxDouble"
proof -
  have "(1000::rat) < 2 ^ 10" by simp
  also have "(2::rat) ^ 10 \<le> 2 ^ 1023" by (rule power_increasing) simp_all
  also note maxDouble_ge
  finally show ?thesis .
qed

lemma toNum_small: "- 1000 \<le> x \<Longrightarrow> x \<le> 1000 \<Longrightarrow> toNum x = Fin x"
  using maxDouble_gt by (simp add: toNum_def)

text \<open>The literal \<open>1e999\<close> is beyond the range of the doubles.\<close>

lemma maxDouble_le_pow10: "maxDouble \<le> 10 ^ 999"
proof -
  have "(2::rat) ^ 1024 - 2 ^ 970 \<le> 2 ^ 1024 - 0"
    by (rule diff_left_mono) (rule zero_le_power, simp)
  then have "maxDouble \<le> 2 ^ 1024" by (simp only: maxDouble_def diff_zero)
  also have "(2::rat) ^ 1024 \<le> 2 ^ 2997" by (rule power_increasing) simp_all
  also have "(2::rat) ^ 2997 = (2 ^ 3) ^ 999" unfolding power_mult[symmetric] by simp
  also have "\<dots> \<le> 10 ^ 999" by (rule power_mono) simp_all
  finally show ?thesis .
qed

lemma toNum_pow10: "toNum (10 ^ 999) = PInf" "toNum (- (10 ^ 999)) = NInf"
proof -
  show "toNum (10 ^ 999) = PInf"
    using maxDouble_le_pow10 by (simp only: toNum_def if_True)
  have "\<not> maxDouble \<le> - (10 ^ 999)"
    using maxDouble_le_pow10 maxDouble_gt by linarith
  then show "toNum (- (10 ^ 999)) = NInf"
    using maxDouble_le_pow10 by (simp only: toNum_def if_True if_False neg_le_iff_le)
qed

lemma exponentFactor_e999: "exponentFactor ''e999'' = 10 ^ 999"
  by (simp add: exponentFactor_def expDigits_def isDigit_def digitsVal_def Let_def del: power_numeral)

lemma parseFloat_overflow:
  "parseFloat (JStr ''1e999'') = PInf"
  "parseFloat (JStr ''-1e999'') = NInf"
  "parseFloat (JNum (10 ^ 999)) = PInf"
  "parseFloat (JNum (- (10 ^ 999))) = NInf"
  by (simp_all add: parseFloat_def trimStart_def isWhiteSpace_def parseUnsigned_def isDigit_def
      digitsVal_def exponentFactor_e999 toNum_pow10 Let_def del: power_numeral)

text \<open>
  A reviewer key is never the name of an inherited property, so reading and writing
  \<open>reviewerStats[reviewer]\<close> is reading and writing a map: an upper-cased string has no
  letter \<open>a\<close> to \<open>z\<close>, every inherited name has one, and the key of an absent reviewer is
  \<open>undefined\<close>.
\<close>

lemma upperUnits_no_lower: "n \<in> set (upperUnits c) \<Longrightarrow> \<not> (97 \<le> n \<and> n \<le> 122)"
  by (auto simp: upperUnits_def Let_def split: if_splits)

lemma toUpperCase_no_lower: "n \<in> set (toUpperCase s) \<Longrightarrow> \<not> (97 \<le> n \<and> n \<le> 122)"
  using upperUnits_no_lower by (fastforce simp: toUpperCase_def)

lemma inherited_lower: "list_all (\<lambda>u. \<exists>n \<in> set u. 97 \<le> n \<and> n \<le> 122) inheritedUnits"
  by (simp add: inheritedUnits_def inheritedNames_def)

lemma keyName_not_inherited: "keyName a \<notin> set inheritedUnits"
proof (cases "Reviewer a")
  case (JStr s)
  then have "\<forall>n \<in> set (keyName a). \<not> (97 \<le> n \<and> n \<le> 122)"
    using toUpperCase_no_lower by (simp add: keyName_def)
  with inherited_lower show ?thesis by (auto simp: list_all_iff)
qed (simp_all add: keyName_def undefinedName_def inheritedUnits_def inheritedNames_def)

text \<open>
  The two passes raise exactly when a record has a reviewer that is a number or a
  boolean; otherwise they are the folds \<open>tallyStats\<close> and \<open>annotated\<close>.
\<close>

lemma reviewerKey_eq:
  "reviewerKey a = (if textReviewer a then Inr (keyName a) else Inl TypeError)"
  by (cases "Reviewer a") (simp_all add: reviewerKey_def textReviewer_def keyName_def)

lemma tally_eq: "tally m a = (if textReviewer a then Inr (tallyStats m a) else Inl TypeError)"
  by (cases "Round a") (simp_all add: tally_def reviewerKey_eq tallyStats_def statsOr_def Let_def)

lemma annotate_eq: "annotate m a = (if textReviewer a then Inr (annotated m a) else Inl TypeError)"
  by (simp add: annotate_def reviewerKey_eq annotated_def averageOf_def statsOr_def split: option.splits)

lemma forEach_pure:
  assumes "\<And>s x. f s x = (if ok x then Inr (g s x) else Inl e)"
  shows "forEach f s xs = (if list_all ok xs then Inr (foldl g s xs) else Inl e)"
  by (induction xs arbitrary: s) (simp_all add: assms)

lemma forEachMap_pure:
  assumes "\<And>x. f x = (if ok x then Inr (g x) else Inl e)"
  shows "forEachMap f xs = (if list_all ok xs then Inr (map g xs) else Inl e)"
  by (induction xs) (simp_all add: assms)

lemma calculate_eq:
  "calculateReviewerLabelAverages assignments =
     (if list_all textReviewer assignments
      then Inr (map (annotated (foldl tallyStats Map.empty assignments)) assignments)
      else Inl TypeError)"
  by (simp add: calculateReviewerLabelAverages_def forEach_pure[of tally textReviewer tallyStats, OF tally_eq]
      forEachMap_pure[of "annotate m" textReviewer "annotated m" for m, OF annotate_eq])

lemma foldl_addLabel:
  "foldl addLabel st rs =
     \<lparr>totalLabel = foldl jsAdd (totalLabel st) (parsedLabels rs),
      count = count st + length (parsedLabels rs)\<rparr>"
  by (induction rs arbitrary: st) (simp_all add: addLabel_def parsedLabels_def Let_def)

lemma statsOr_tallyStats:
  "statsOr (tallyStats m a) k =
     (if k = keyName a then foldl addLabel (statsOr m k) (roundsOf a) else statsOr m k)"
  by (cases "Round a") (auto simp: tallyStats_def statsOr_def roundsOf_def)

lemma statsOr_foldl_tallyStats:
  "statsOr (foldl tallyStats m as) k =
     foldl addLabel (statsOr m k) (concat (map roundsOf (filter (\<lambda>a. keyName a = k) as)))"
  by (induction as arbitrary: m) (simp_all add: statsOr_tallyStats)

lemma average_foldl_tallyStats:
  "averageOf (statsOr (foldl tallyStats Map.empty as) k) =
     (let labels = parsedLabels (concat (map roundsOf (filter (\<lambda>a. keyName a = k) as)))
      in if labels = [] then NaN else jsDivNat (foldl jsAdd (Fin 0) labels) (length labels))"
  by (simp add: statsOr_foldl_tallyStats foldl_addLabel averageOf_def Let_def) (simp add: statsOr_def)

lemmas average_defs =
  calculateReviewerLabelAverages_def tally_def annotate_def addLabel_def reviewerKey_def
  toUpperCase_def upperUnits_def undefinedName_def trim_def isWhiteSpace_def parseFloat_def
  trimStart_def parseUnsigned_def isDigit_def digitsVal_def exponentFactor_def isNaN_def
  assignment.extend_def assignment_avg.fields_def Let_def toNum_small

text \<open>
  Claim C6. \<open>calculateReviewerLabelAverages\<close> returns exactly when every \<open>Reviewer\<close> is
  a string, \<open>null\<close> or absent (on a number or a boolean \<open>trim\<close> raises). Every record
  then carries as \<open>avgLabel\<close> the value \<open>NaN\<close> when the rounds of the records with the
  same reviewer key (the trimmed, upper-cased \<open>Reviewer\<close>) have no parseable \<open>Label\<close>,
  and otherwise the sum of the parseable labels of these rounds divided by their number;
  the records are otherwise unchanged. The sum and the quotient are those of JavaScript:
  a label beyond the range of the doubles is an infinity, and the sum of \<open>Infinity\<close>
  and \<open>-Infinity\<close> is \<open>NaN\<close>. On the three records of \<open>avgExample\<close> the keys of
  the first two are both \<open>A1\<close> and their average is that of the labels 1 and 0.5, and
  the third has no parseable label; the two reviewers of \<open>latinExample\<close>, U+00E9 and
  U+00C9, have one key and share the average of the labels 1 and 0; the labels \<open>1e999\<close>
  and \<open>-1e999\<close> of \<open>overflowExample\<close> both parse and their average is \<open>NaN\<close>.
\<close>

theorem reviewer_label_average:
  "calculateReviewerLabelAverages assignments =
     (if list_all (\<lambda>a. case Reviewer a of JNum x \<Rightarrow> False | JBool b \<Rightarrow> False | _ \<Rightarrow> True) assignments
      then Inr (map (\<lambda>a. assignment.extend a (assignment_avg.fields
                  (let key = (\<lambda>b. case Reviewer b of JStr s \<Rightarrow> toUpperCase (trim s)
                                                      | _ \<Rightarrow> map of_char ''undefined'');
                       labels = filter (\<lambda>x. x \<noteq> NaN)
                                  (map (\<lambda>r. parseFloat (Label r))
                                     (concat (map roundsOf (filter (\<lambda>b. key b = key a) assignments))))
                   in if labels = [] then NaN
                      else jsDivNat (foldl jsAdd (Fin 0) labels) (length labels)))) assignments)
      else Inl TypeError)
   \<and> map_sum id (map avgLabel) (calculateReviewerLabelAverages avgExample) =
       Inr [Fin (3 / 4), Fin (3 / 4), NaN]
   \<and> map_sum id (map avgLabel) (calculateReviewerLabelAverages latinExample) =
       Inr [Fin (1 / 2), Fin (1 / 2)]
   \<and> map_sum id (map avgLabel) (calculateReviewerLabelAverages overflowExample) = Inr [NaN]"
proof -
  have k: "keyName = (\<lambda>b. case Reviewer b of JStr s \<Rightarrow> toUpperCase (trim s) | _ \<Rightarrow> map of_char ''undefined'')"
    by (auto simp: fun_eq_iff keyName_def undefinedName_def split: jsval.splits)
  have t: "textReviewer = (\<lambda>a::assignment. case Reviewer a of JNum x \<Rightarrow> False | JBool b \<Rightarrow> False | _ \<Rightarrow> True)"
    by (simp add: fun_eq_iff textReviewer_def)
  have 1: "annotated (foldl tallyStats Map.empty assignments) a =
      assignment.extend a (assignment_avg.fields
                  (let labels = filter (\<lambda>x. x \<noteq> NaN)
                                  (map (\<lambda>r. parseFloat (Label r))
                                     (concat (map roundsOf (filter (\<lambda>b. keyName b = keyName a) assignments))))
                   in if labels = [] then NaN
                      else jsDivNat (foldl jsAdd (Fin 0) labels) (length labels)))" for a
    by (simp add: annotated_def average_foldl_tallyStats parsedLabels_def isNaN_def)
  have 2: "map_sum id (map avgLabel) (calculateReviewerLabelAverages avgExample) =
       Inr [Fin (3 / 4), Fin (3 / 4), NaN]"
    by (simp add: avgExample_def average_defs)
  have 3: "calculateReviewerLabelAverages assignments =
     (if list_all (\<lambda>a. case Reviewer a of JNum x \<Rightarrow> False | JBool b \<Rightarrow> False | _ \<Rightarrow> True) assignments
      then Inr (map (\<lambda>a. assignment.extend a (assignment_avg.fields
                  (let key = (\<lambda>b. case Reviewer b of JStr s \<Rightarrow> toUpperCase (trim s)
                                                      | _ \<Rightarrow> map of_char ''undefined'');
                       labels = filter (\<lambda>x. x \<noteq> NaN)
                                  (map (\<lambda>r. parseFloat (Label r))
                                     (concat (map roundsOf (filter (\<lambda>b. key b = key a) assignments))))
                   in if labels = [] then NaN
                      else jsDivNat (foldl jsAdd (Fin 0) labels) (length labels)))) assignments)
      else Inl TypeError)"
    unfolding calculate_eq 1 by (simp add: k t Let_def)
  have 4: "map_sum id (map avgLabel) (calculateReviewerLabelAverages latinExample) =
       Inr [Fin (1 / 2), Fin (1 / 2)]"
    by (simp add: latinExample_def average_defs)
  have 5: "map_sum id (map avgLabel) (calculateReviewerLabelAverages overflowExample) = Inr [NaN]"
    by (simp add: overflowExample_def calculateReviewerLabelAverages_def tally_def annotate_def
        addLabel_def reviewerKey_def toUpperCase_def upperUnits_def trim_def isWhiteSpace_def
        isNaN_def assignment.extend_def assignment_avg.fields_def Let_def parseFloat_overflow)
  from 3 2 4 5 show ?thesis by (intro conjI)
qed

subsection \<open>Average label quality\<close>

lemmas quality_defs =
  getAvgLabelQuality_def hasFeedback_def trim_def isWhiteSpace_def labelOrZero_def parseFloat_def
  trimStart_def parseUnsigned_def Let_def

text \<open>
  Claim C7. The function is meant to return a number between 0 and 1 for every sequence
  of rounds. On two rounds with feedback whose labels parse to \<open>Infinity\<close> and
  \<open>-Infinity\<close> the sum is \<open>NaN\<close>, and \<open>Math.min\<close> and \<open>Math.max\<close> pass \<open>NaN\<close> on: the
  function returns \<open>NaN\<close>.
\<close>

theorem avg_label_quality_nan: "getAvgLabelQuality infiniteLabels = NaN"
  by (simp add: infiniteLabels_def quality_defs)

text \<open>
  Whatever the rounds are, the result is \<open>NaN\<close> or a number between 0 and 1. When no
  label of a round with feedback parses to an infinity and the absolute values of these
  labels add up to less than the overflow boundary, the result is the number that the
  claim describes: 0 without such rounds, otherwise the mean of the labels (a label that
  does not parse counting 0) clamped to the interval from 0 to 1.
\<close>

lemma clamp_range:
  "jsMax (Fin 0) (jsMin (Fin 1) x) = NaN \<or>
   (\<exists>q. jsMax (Fin 0) (jsMin (Fin 1) x) = Fin q \<and> 0 \<le> q \<and> q \<le> 1)"
  by (cases x) auto

lemma avg_label_quality_range:
  "getAvgLabelQuality rounds = NaN \<or> (\<exists>q. getAvgLabelQuality rounds = Fin q \<and> 0 \<le> q \<and> q \<le> 1)"
proof (cases rounds)
  case NotArray
  then show ?thesis by (simp add: getAvgLabelQuality_def)
next
  case (IsArray rs)
  show ?thesis
    unfolding IsArray getAvgLabelQuality_def Let_def
    using clamp_range by (auto split: if_splits)
qed

lemma toNum_below: "\<bar>x\<bar> < maxDouble \<Longrightarrow> toNum x = Fin x"
  by (auto simp: toNum_def)

lemma labelOrZero_finite: "finiteLabel r \<Longrightarrow> labelOrZero r = Fin (labelValue r)"
  by (cases "parseFloat (Label r)") (auto simp: labelOrZero_def labelValue_def finiteLabel_def Let_def)

lemma foldl_jsAdd_finite:
  "list_all finiteLabel rs \<Longrightarrow> \<bar>x\<bar> + sum_list (map (\<lambda>r. \<bar>labelValue r\<bar>) rs) < maxDouble \<Longrightarrow>
   foldl (\<lambda>sum r. jsAdd sum (labelOrZero r)) (Fin x) rs = Fin (x + sum_list (map labelValue rs))"
proof (induction rs arbitrary: x)
  case Nil
  then show ?case by simp
next
  case (Cons r rs)
  have s: "0 \<le> sum_list (map (\<lambda>r. \<bar>labelValue r\<bar>) rs)"
    by (rule sum_list_nonneg) auto
  from Cons.prems s have "\<bar>x + labelValue r\<bar> < maxDouble" by simp
  then have 1: "jsAdd (Fin x) (labelOrZero r) = Fin (x + labelValue r)"
    using Cons.prems(1) by (simp add: labelOrZero_finite toNum_below)
  have "\<bar>x + labelValue r\<bar> + sum_list (map (\<lambda>r. \<bar>labelValue r\<bar>) rs) < maxDouble"
    using Cons.prems(2) by simp
  with Cons.IH[of "x + labelValue r"] Cons.prems(1) 1 show ?case by (simp add: add.assoc)
qed

lemma avg_label_quality_finite:
  assumes "list_all finiteLabel (filter hasFeedback rs)"
    and "sum_list (map (\<lambda>r. \<bar>labelValue r\<bar>) (filter hasFeedback rs)) < maxDouble"
  shows "getAvgLabelQuality (IsArray rs) =
           Fin (let valid = filter hasFeedback rs
                in if valid = [] then 0
                   else max 0 (min 1 (sum_list (map labelValue valid) / of_nat (length valid))))"
  using foldl_jsAdd_finite[OF assms(1), of 0] assms(2)
  by (auto simp: getAvgLabelQuality_def Let_def)

subsection \<open>A \<open>Round\<close> that is not an array\<close>














text \<open>
  On a page whose data has the key \<open>HW1\<close> with the record of \<open>numericReviewer\<close>,
  \<open>processReviewerData\<close> completes for the key \<open>HW1\<close>, with the node of reviewer 123
  without rounds and one edge; for the name \<open>toString\<close>, which the object inherits, it
  raises.
\<close>

lemma raw_object_example:
  "processReviewerData_js [''HW1'' \<mapsto> HwRecords numericReviewer] AllMode (HwArray [''HW1'']) =
     Inr \<lparr>nodes = [\<lparr>node_id = JNum 123, totalRounds = 0, meaningfulScore = 0, feedbacks = [],
                    labelCounts = \<lparr>relevance = 0, concreteness = 0, constructive = 0\<rparr>,
                    isFeedbackEmpty = True\<rparr>],
          links = [\<lparr>from_id = JNum 123, to_id = JStr ''B'', completedAll = False,
                    hwName = ''HW1''\<rparr>]\<rparr>
   \<and> processReviewerData_js [''HW1'' \<mapsto> HwRecords numericReviewer] AllMode (HwString ''toString'') =
     Inl TypeError"
  by (simp add: processReviewerData_js_def processHw_js_def getHw_def inheritedNames_def
      numericReviewer_def eval_defs)

end
